theory Spec2Isabelle
  imports Main "HOL-Library.AList"
begin

section \<open>Strings and errors\<close>

text \<open>
  JavaScript strings are modelled as lists of 8-bit characters. \<open>startsWith\<close> and
  \<open>trim\<close> are the two string methods \<open>SSEParser.parseLine\<close> and
  \<open>ChatSession.stream\<close> call; the white space \<open>trim\<close> removes is TAB, LF, VT, FF, CR,
  SP and NBSP (the white-space and line-terminator code units below 256).
\<close>

definition startsWith :: "string \<Rightarrow> string \<Rightarrow> bool" where
  "startsWith s p = (take (length p) s = p)"

definition isWhiteSpace :: "char \<Rightarrow> bool" where
  "isWhiteSpace c =
     (c = CHR 0x09 \<or> c = CHR 0x0A \<or> c = CHR 0x0B \<or> c = CHR 0x0C \<or> c = CHR 0x0D
      \<or> c = CHR '' '' \<or> c = CHR 0xA0)"

definition trim :: "string \<Rightarrow> string" where
  "trim s = rev (dropWhile isWhiteSpace (rev (dropWhile isWhiteSpace s)))"

text \<open>
  A value that is a string or \<open>null\<close> (the configured system message) is \<open>Some s\<close> or
  \<open>None\<close>. \<open>truthy\<close> is JavaScript's \<open>if (v)\<close> on it: \<open>null\<close> and the empty string are
  falsy.
\<close>

definition truthy :: "string option \<Rightarrow> bool" where
  "truthy v = (case v of None \<Rightarrow> False | Some s \<Rightarrow> s \<noteq> [])"

text \<open>
  The values a decoded payload can hold in a field: what \<open>JSON.parse\<close> builds, and
  \<open>undefined\<close>, which reading an absent property gives. The code copies such a value, tests it
  with \<open>if (v)\<close> and appends it to a string, so a number is kept as the text \<open>String(v)\<close>
  gives for it (\<open>0\<close> for both zeros), which determines the number.
\<close>

datatype jsvalue =
    JUndefined
  | JNull
  | JBool bool
  | JNumber string
  | JString string
  | JArray "jsvalue list"
  | JObject "(string \<times> jsvalue) list"

fun js_truthy :: "jsvalue \<Rightarrow> bool" where
  \<comment> \<open>\<open>if (v)\<close>\<close>
  "js_truthy JUndefined = False"
| "js_truthy JNull = False"
| "js_truthy (JBool b) = b"
| "js_truthy (JNumber n) = (n \<noteq> ''0'' \<and> n \<noteq> ''NaN'')"
| "js_truthy (JString s) = (s \<noteq> [])"
| "js_truthy (JArray vs) = True"
| "js_truthy (JObject kvs) = True"

fun join_comma :: "string list \<Rightarrow> string" where
  "join_comma [] = []"
| "join_comma [s] = s"
| "join_comma (s # t # ss) = s @ '','' @ join_comma (t # ss)"

fun js_string :: "jsvalue \<Rightarrow> string" where
  \<comment> \<open>the string that \<open>s += v\<close> appends and that a template literal inserts\<close>
  "js_string JUndefined = ''undefined''"
| "js_string JNull = ''null''"
| "js_string (JBool b) = (if b then ''true'' else ''false'')"
| "js_string (JNumber n) = n"
| "js_string (JString s) = s"
| "js_string (JArray vs) =
     join_comma (map (\<lambda>v. if v = JNull \<or> v = JUndefined then [] else js_string v) vs)"
| "js_string (JObject kvs) = ''[object Object]''"

text \<open>The exceptions the modelled code can raise.\<close>

datatype error =
    SSEError                  \<comment> \<open>\<open>new SSEError(...)\<close>, thrown by the v2.14.0 parser\<close>
  | TypeError                 \<comment> \<open>a property read on \<open>undefined\<close> or \<open>null\<close>\<close>
  | APIError                  \<comment> \<open>any error thrown by the transport\<close>
  | StringifyError            \<comment> \<open>what \<open>JSON.stringify\<close> throws on a value it cannot encode\<close>
  | IterationLimitExceeded    \<comment> \<open>\<open>new Error('Exceeded maximum tool iteration limit of 5.')\<close>\<close>

section \<open>The stream event parser (class SSEParser)\<close>

text \<open>
  A tool call under construction or finalized: \<open>{ id, name, arguments }\<close>. The accumulator
  creates it as \<open>{ id: null, name: null, arguments: '' }\<close>.
\<close>

record tool_call =
  call_id :: jsvalue
  call_name :: jsvalue
  arguments :: string

definition new_call :: tool_call where
  "new_call = \<lparr>call_id = JNull, call_name = JNull, arguments = []\<rparr>"

text \<open>
  The fields \<open>parseLine\<close> reads from a decoded \<open>ToolCall\<close> record. The wire format defines
  \<open>parallelToolIndex\<close> as an integer, which may be absent. The other three are strings on
  the wire format, but \<open>parseLine\<close> takes whatever value the payload holds there,
  \<open>JUndefined\<close> when the field is absent.
\<close>

record fragment =
  parallelToolIndex :: "int option"
  frag_id :: jsvalue
  frag_name :: jsvalue
  frag_content :: jsvalue

text \<open>
  A decoded payload, by the value of its \<open>type\<close> discriminator. \<open>QuotaMetadata\<close> keeps
  the whole decoded object (of some type \<open>'q\<close>), which the parser passes on untouched;
  \<open>Unrecognized\<close> is every other value of \<open>type\<close>, the \<open>default\<close> branch of the switch.
\<close>

datatype 'q wire_record =
    Content jsvalue
  | ToolCall fragment
  | FinishMetadata "string option"
  | QuotaMetadata 'q
  | Unrecognized

datatype 'q stream_event =
    Text jsvalue                  \<comment> \<open>\<open>{ type: 'text', content }\<close>\<close>
  | ToolCalls "tool_call list"    \<comment> \<open>\<open>{ type: 'tool_calls', calls }\<close>\<close>
  | Quota 'q                      \<comment> \<open>\<open>{ type: 'quota', data }\<close>\<close>

text \<open>
  The parser's two fields. \<open>toolCallsInProgress\<close> is a JavaScript \<open>Map\<close>: an association
  list in insertion order, on which \<open>AList.update\<close> is \<open>Map.set\<close> (a new key is appended, an old
  key keeps its place).
\<close>

record SSEParser =
  finalizedToolCalls :: "tool_call list"
  toolCallsInProgress :: "(int \<times> tool_call) list"

definition new_SSEParser :: SSEParser where
  "new_SSEParser = \<lparr>finalizedToolCalls = [], toolCallsInProgress = []\<rparr>"

definition fragment_index :: "fragment \<Rightarrow> int" where
  \<comment> \<open>\<open>parsed.parallelToolIndex ?? 0\<close>\<close>
  "fragment_index f = (case parallelToolIndex f of None \<Rightarrow> 0 | Some i \<Rightarrow> i)"

definition merge_fragment :: "fragment \<Rightarrow> tool_call \<Rightarrow> tool_call" where
  \<comment> \<open>the three conditional assignments on \<open>currentCall\<close>\<close>
  "merge_fragment f c =
     (let c1 = (if js_truthy (frag_id f) then c\<lparr>call_id := frag_id f\<rparr> else c);
          c2 = (if js_truthy (frag_name f) then c1\<lparr>call_name := frag_name f\<rparr> else c1)
      in if js_truthy (frag_content f)
         then c2\<lparr>arguments := arguments c2 @ js_string (frag_content f)\<rparr> else c2)"

definition accumulate :: "fragment \<Rightarrow> (int \<times> tool_call) list \<Rightarrow> (int \<times> tool_call) list" where
  \<comment> \<open>the body of \<open>case 'ToolCall'\<close>\<close>
  "accumulate f m =
     (let idx = fragment_index f;
          m1 = (if map_of m idx = None then AList.update idx new_call m else m)
      in (case map_of m1 idx of
            None \<Rightarrow> m1
          | Some currentCall \<Rightarrow> AList.update idx (merge_fragment f currentCall) m1))"

definition flush_reasons :: "string list" where
  "flush_reasons = [''tool_call'', ''tool_calls'', ''stop'']"

definition sortedCalls :: "(int \<times> tool_call) list \<Rightarrow> tool_call list" where
  \<comment> \<open>\<open>Array.from(map.entries()).sort(([a], [b]) => a - b).map(([, call]) => call)\<close>\<close>
  "sortedCalls m = map snd (sort_key fst m)"

text \<open>
  The switch of \<open>parseLine\<close> on a decoded payload; it is the same text in v2.11.0 and in
  v2.14.0. It returns the updated parser and the event, \<open>None\<close> for \<open>return null\<close>.
\<close>

fun parseRecord :: "SSEParser \<Rightarrow> 'q wire_record \<Rightarrow> SSEParser \<times> 'q stream_event option" where
  "parseRecord p (Content c) = (p, Some (Text c))"
| "parseRecord p (ToolCall f) =
     (p\<lparr>toolCallsInProgress := accumulate f (toolCallsInProgress p)\<rparr>, None)"
| "parseRecord p (FinishMetadata reason) =
     (case reason of
        None \<Rightarrow> (p, None)
      | Some r \<Rightarrow>
          if r \<in> set flush_reasons
          then (p\<lparr>finalizedToolCalls := finalizedToolCalls p @ sortedCalls (toolCallsInProgress p),
                  toolCallsInProgress := []\<rparr>, None)
          else (p, None))"
| "parseRecord p (QuotaMetadata q) = (p, Some (Quota q))"
| "parseRecord p Unrecognized = (p, None)"

text \<open>
  \<open>JSON.parse\<close> is a built-in of the language, so \<open>parseLine\<close> takes the decoder as a
  parameter: \<open>decode payload\<close> is \<open>None\<close> when the \<open>try\<close> block throws before the switch
  runs (\<open>JSON.parse\<close> rejects the text, or it yields \<open>null\<close> and reading \<open>parsed.type\<close>
  throws), and otherwise the decoded record. v2.14.0 turns the exception into an
  \<open>SSEError\<close>; v2.11.0 catches it and returns \<open>null\<close>.
\<close>

definition parseLine ::
  "(string \<Rightarrow> 'q wire_record option) \<Rightarrow> SSEParser \<Rightarrow> string
     \<Rightarrow> error + (SSEParser \<times> 'q stream_event option)" where
  "parseLine decode p line =
     (if \<not> startsWith line ''data: '' then Inr (p, None)
      else let dataContent = drop 6 line in
        if trim dataContent = ''end'' then Inr (p, None)
        else (case decode dataContent of
                None \<Rightarrow> Inl SSEError
              | Some parsed \<Rightarrow> Inr (parseRecord p parsed)))"

definition parseLine_v2_11 ::
  "(string \<Rightarrow> 'q wire_record option) \<Rightarrow> SSEParser \<Rightarrow> string
     \<Rightarrow> error + (SSEParser \<times> 'q stream_event option)" where
  "parseLine_v2_11 decode p line =
     (if \<not> startsWith line ''data: '' then Inr (p, None)
      else let dataContent = drop 6 line in
        if trim dataContent = ''end'' then Inr (p, None)
        else (case decode dataContent of
                None \<Rightarrow> Inr (p, None)
              | Some parsed \<Rightarrow> Inr (parseRecord p parsed)))"

definition getFinalResult :: "SSEParser \<Rightarrow> tool_call list" where
  "getFinalResult p = finalizedToolCalls p"

text \<open>Feeding a sequence of decoded records to the parser, one \<open>parseLine\<close> call each.\<close>

definition feed :: "SSEParser \<Rightarrow> 'q wire_record list \<Rightarrow> SSEParser" where
  "feed p rs = fold (\<lambda>r q. fst (parseRecord q r)) rs p"

subsection \<open>What a batch of fragments reassembles to\<close>

text \<open>
  A batch is the run of tool-call fragments the parser receives between two flushes. These
  definitions state, without the accumulator, what the batch's call for index \<open>i\<close> is: the
  fragments of that index in arrival order, the latest truthy id and name among them
  (\<open>null\<close> when none carries one), and their argument texts concatenated. The argument
  text of a fragment is what its content appends: the content itself when it is a string,
  nothing when it is absent or falsy.
\<close>

definition fragments_at :: "int \<Rightarrow> fragment list \<Rightarrow> fragment list" where
  "fragments_at i fs = filter (\<lambda>f. fragment_index f = i) fs"

definition batch_indices :: "fragment list \<Rightarrow> int list" where
  \<comment> \<open>the distinct indices of the batch, ascending\<close>
  "batch_indices fs = sort (remdups (map fragment_index fs))"

definition argument_text :: "fragment \<Rightarrow> string" where
  "argument_text f = (if js_truthy (frag_content f) then js_string (frag_content f) else [])"

definition latest :: "jsvalue list \<Rightarrow> jsvalue" where
  "latest vs = (if filter js_truthy vs = [] then JNull else last (filter js_truthy vs))"

definition first_carried :: "jsvalue list \<Rightarrow> jsvalue" where
  \<comment> \<open>the value of the first fragment that carries one\<close>
  "first_carried vs = (case filter js_truthy vs of [] \<Rightarrow> JNull | v # _ \<Rightarrow> v)"

definition reassembled :: "int \<Rightarrow> fragment list \<Rightarrow> tool_call" where
  "reassembled i fs =
     \<lparr>call_id = latest (map frag_id (fragments_at i fs)),
      call_name = latest (map frag_name (fragments_at i fs)),
      arguments = concat (map argument_text (fragments_at i fs))\<rparr>"

definition entry_or_new :: "(int \<times> tool_call) list \<Rightarrow> int \<Rightarrow> tool_call" where
  "entry_or_new m i = (case map_of m i of None \<Rightarrow> new_call | Some c \<Rightarrow> c)"

subsection \<open>Reading the response body (the loop of ChatSession.stream)\<close>

text \<open>
  \<open>buffer.split('\n')\<close>: the pieces between line feeds, never an empty list.
\<close>

fun split_newline :: "string \<Rightarrow> string list" where
  "split_newline [] = [[]]"
| "split_newline (c # cs) =
     (if c = CHR 0x0A then [] # split_newline cs
      else (case split_newline cs of
              [] \<Rightarrow> [[c]]
            | l # ls \<Rightarrow> (c # l) # ls))"

text \<open>
  \<open>for (const line of lines) { if (line.trim()) { const event = parser.parseLine(line);
  if (event) yield event; } }\<close>. The result is the events yielded, in order, and how the loop
  ended: with the exception \<open>parseLine\<close> raised, or with the parser it left. The parser
  variant is the parameter \<open>parse\<close>.
\<close>

fun parse_lines ::
  "(SSEParser \<Rightarrow> string \<Rightarrow> error + (SSEParser \<times> 'q stream_event option)) \<Rightarrow> SSEParser
     \<Rightarrow> string list \<Rightarrow> 'q stream_event list \<times> (error + SSEParser)" where
  "parse_lines parse p [] = ([], Inr p)"
| "parse_lines parse p (line # lines) =
     (if trim line = [] then parse_lines parse p lines
      else (case parse p line of
              Inl e \<Rightarrow> ([], Inl e)
            | Inr (p', event) \<Rightarrow>
                (case parse_lines parse p' lines of
                   (events, r) \<Rightarrow> ((case event of None \<Rightarrow> [] | Some ev \<Rightarrow> [ev]) @ events, r))))"

text \<open>
  \<open>for await (const chunk of stream) { buffer += chunk; const lines = buffer.split('\n');
  buffer = lines.pop() || ''; ... }\<close>
\<close>

fun read_chunks ::
  "(SSEParser \<Rightarrow> string \<Rightarrow> error + (SSEParser \<times> 'q stream_event option)) \<Rightarrow> SSEParser
     \<Rightarrow> string \<Rightarrow> string list \<Rightarrow> 'q stream_event list \<times> (error + SSEParser \<times> string)" where
  "read_chunks parse p buffer [] = ([], Inr (p, buffer))"
| "read_chunks parse p buffer (chunk # chunks) =
     (let lines = split_newline (buffer @ chunk) in
      (case parse_lines parse p (butlast lines) of
         (events, Inl e) \<Rightarrow> (events, Inl e)
       | (events, Inr p') \<Rightarrow>
           (case read_chunks parse p' (last lines) chunks of
              (events', r) \<Rightarrow> (events @ events', r))))"

text \<open>
  Everything \<open>ChatSession.stream\<close> does once the response has arrived: a fresh parser reads
  the chunks, then the rest of the buffer, and the finalized calls are yielded as one
  \<open>tool_calls\<close> event when there are any. The result is the events the generator yields and
  the exception that ends it, if one does.
\<close>

definition stream_response ::
  "(SSEParser \<Rightarrow> string \<Rightarrow> error + (SSEParser \<times> 'q stream_event option)) \<Rightarrow> string list
     \<Rightarrow> 'q stream_event list \<times> error option" where
  "stream_response parse chunks =
     (case read_chunks parse new_SSEParser [] chunks of
        (events, Inl e) \<Rightarrow> (events, Some e)
      | (events, Inr (p, buffer)) \<Rightarrow>
          (case parse_lines parse p [buffer] of
             (events', Inl e) \<Rightarrow> (events @ events', Some e)
           | (events', Inr p') \<Rightarrow>
               (events @ events'
                  @ (if getFinalResult p' = [] then [] else [ToolCalls (getFinalResult p')]),
                None)))"

subsection \<open>Example inputs\<close>

text \<open>
  The value of the decoder on the payloads used in the examples of this theory, each row
  being what \<open>JSON.parse\<close> returns on that text, seen through the fields \<open>parseLine\<close> reads.
  The other texts the examples use (\<open>end\<close>, \<open>{bad\<close>) are not JSON.
\<close>

definition example_decode :: "string \<Rightarrow> unit wire_record option" where
  \<open>example_decode = map_of
     [(''{"type":"ToolCall","content":"{"}'',
         ToolCall \<lparr>parallelToolIndex = None, frag_id = JUndefined, frag_name = JUndefined,
                   frag_content = JString ''{''\<rparr>),
      (''{"type":"FinishMetadata","reason":"tool_calls"}'',
         FinishMetadata (Some ''tool_calls'')),
      (''{"type":"ToolCall","parallelToolIndex":0,"id":"call_1","name":"get_weather","content":"[48.85,"}'',
         ToolCall \<lparr>parallelToolIndex = Some 0, frag_id = JString ''call_1'',
                   frag_name = JString ''get_weather'', frag_content = JString ''[48.85,''\<rparr>),
      (''{"type":"ToolCall","content":"2.35]"}'',
         ToolCall \<lparr>parallelToolIndex = None, frag_id = JUndefined, frag_name = JUndefined,
                   frag_content = JString ''2.35]''\<rparr>),
      (''{"type":"ToolCall","parallelToolIndex":1,"id":"call_2","name":"get_time"}'',
         ToolCall \<lparr>parallelToolIndex = Some 1, frag_id = JString ''call_2'',
                   frag_name = JString ''get_time'', frag_content = JUndefined\<rparr>),
      (''{"type":"Content","content":"Sunny in Paris."}'',
         Content (JString ''Sunny in Paris.'')),
      (''{"type":"FinishMetadata","reason":"stop"}'',
         FinishMetadata (Some ''stop''))]\<close>

text \<open>
  Three response bodies, in chunks: one fragment that carries nothing but an opening brace,
  then the finish record; a request for two calls, the arguments of the first in two
  fragments; and a text answer.
\<close>

definition example_chunks :: "string list" where
  \<open>example_chunks =
     [''data: {"type":"ToolCall","content":"{"}'' @ [CHR 0x0A],
      ''data: {"type":"FinishMetadata","reason":"tool_calls"}'' @ [CHR 0x0A]]\<close>

definition tool_chunks :: "string list" where
  \<open>tool_chunks =
     [''data: {"type":"ToolCall","parallelToolIndex":1,"id":"call_2","name":"get_time"}''
        @ [CHR 0x0A],
      ''data: {"type":"ToolCall","parallelToolIndex":0,"id":"call_1","name":"get_weather","content":"[48.85,"}''
        @ [CHR 0x0A] @ ''data: {"type":"ToolCall",'',
      ''"content":"2.35]"}'' @ [CHR 0x0A],
      ''data: {"type":"FinishMetadata","reason":"tool_calls"}'']\<close>


definition weather_call :: tool_call where
  \<open>weather_call =
     \<lparr>call_id = JString ''call_1'', call_name = JString ''get_weather'',
      arguments = ''[48.85,2.35]''\<rparr>\<close>

definition time_call :: tool_call where
  \<open>time_call = \<lparr>call_id = JString ''call_2'', call_name = JString ''get_time'', arguments = []\<rparr>\<close>

definition frag :: "int option \<Rightarrow> string \<Rightarrow> string \<Rightarrow> string \<Rightarrow> fragment" where
  \<comment> \<open>a fragment that carries an id, a name and a content, all strings (each possibly empty)\<close>
  "frag i a b c =
     \<lparr>parallelToolIndex = i, frag_id = JString a, frag_name = JString b,
      frag_content = JString c\<rparr>"

definition weather_fragments :: "fragment list" where
  \<open>weather_fragments =
     [frag (Some 0) ''call_1'' ''get_weather'' ''{"city":'',
      frag None [] [] ''"Paris"}'']\<close>

definition fragments_2_0_1 :: "fragment list" where
  "fragments_2_0_1 =
     [frag (Some 2) ''call_c'' ''h'' ''2'', frag (Some 0) ''call_a'' ''f'' ''0'',
      frag (Some 1) ''call_b'' ''g'' ''1'']"

definition fragments_0_1_2 :: "fragment list" where
  "fragments_0_1_2 =
     [frag (Some 0) ''call_a'' ''f'' ''0'', frag (Some 1) ''call_b'' ''g'' ''1'',
      frag (Some 2) ''call_c'' ''h'' ''2'']"

section \<open>The capability registry\<close>

text \<open>
  The keys of \<open>LLMParameters\<close>. They are also the keys a \<open>ParameterBuilder\<close> can set (all
  but \<open>TOOLS\<close>), so a session's parameters are a list of pairs of such a key and a value, in
  the order of \<open>Object.entries\<close>. Every key has a definition, so the guard
  \<open>if (!paramDef) continue\<close> of \<open>buildParametersArray\<close> never fires on these keys.
\<close>

datatype param_key =
    TEMPERATURE | TOP_P | TOP_K | LENGTH | STOP_TOKEN | SEED | RESPONSE_FORMAT | TOOLS
  | TOOL_CHOICE_AUTO | TOOL_CHOICE_REQUIRED | TOOL_CHOICE_NONE | TOOL_CHOICE_NAMED
  | PARALLEL_TOOL_CALLS | REASONING_EFFORT | PREDICTED_OUTPUT | CACHE_POINTS | THINKING_BUDGET
  | NUMBER_OF_CHOICES | VERBOSITY

record ParameterDefinition =
  fqdn :: string
  ptype :: string

fun LLMParameters :: "param_key \<Rightarrow> ParameterDefinition" where
  "LLMParameters TEMPERATURE = \<lparr>fqdn = ''llm.parameters.temperature'', ptype = ''double''\<rparr>"
| "LLMParameters TOP_P = \<lparr>fqdn = ''llm.parameters.top-p'', ptype = ''double''\<rparr>"
| "LLMParameters TOP_K = \<lparr>fqdn = ''llm.parameters.top-k'', ptype = ''int''\<rparr>"
| "LLMParameters LENGTH = \<lparr>fqdn = ''llm.parameters.length'', ptype = ''int''\<rparr>"
| "LLMParameters STOP_TOKEN = \<lparr>fqdn = ''llm.parameters.stop-token'', ptype = ''text''\<rparr>"
| "LLMParameters SEED = \<lparr>fqdn = ''llm.parameters.seed'', ptype = ''int''\<rparr>"
| "LLMParameters RESPONSE_FORMAT =
     \<lparr>fqdn = ''llm.parameters.response-format'', ptype = ''json''\<rparr>"
| "LLMParameters TOOLS = \<lparr>fqdn = ''llm.parameters.tools'', ptype = ''json''\<rparr>"
| "LLMParameters TOOL_CHOICE_AUTO =
     \<lparr>fqdn = ''llm.parameters.tool-choice-auto'', ptype = ''bool''\<rparr>"
| "LLMParameters TOOL_CHOICE_REQUIRED =
     \<lparr>fqdn = ''llm.parameters.tool-choice-required'', ptype = ''bool''\<rparr>"
| "LLMParameters TOOL_CHOICE_NONE =
     \<lparr>fqdn = ''llm.parameters.tool-choice-none'', ptype = ''bool''\<rparr>"
| "LLMParameters TOOL_CHOICE_NAMED =
     \<lparr>fqdn = ''llm.parameters.tool-choice-named'', ptype = ''json''\<rparr>"
| "LLMParameters PARALLEL_TOOL_CALLS =
     \<lparr>fqdn = ''llm.parameters.parallel-tool-calls'', ptype = ''bool''\<rparr>"
| "LLMParameters REASONING_EFFORT =
     \<lparr>fqdn = ''llm.parameters.reasoning-effort'', ptype = ''text''\<rparr>"
| "LLMParameters PREDICTED_OUTPUT =
     \<lparr>fqdn = ''llm.parameters.predicted-output'', ptype = ''json''\<rparr>"
| "LLMParameters CACHE_POINTS = \<lparr>fqdn = ''llm.parameters.cache-points'', ptype = ''json''\<rparr>"
| "LLMParameters THINKING_BUDGET =
     \<lparr>fqdn = ''llm.parameters.thinking-budget'', ptype = ''int''\<rparr>"
| "LLMParameters NUMBER_OF_CHOICES =
     \<lparr>fqdn = ''llm.parameters.number-of-choices'', ptype = ''int''\<rparr>"
| "LLMParameters VERBOSITY = \<lparr>fqdn = ''llm.parameters.verbosity'', ptype = ''text''\<rparr>"

text \<open>
  A model profile: \<open>params\<close> is the \<open>Set\<close> of supported wire names, as the list of its
  elements. The groups and the profiles are those of \<open>paramGroups\<close> and \<open>modelProfiles\<close>, the
  same in v2.11.0 and v2.14.0.
\<close>

record ModelProfile =
  provider :: string
  params :: "string list"

definition COMMON_TOOLS :: "string list" where
  "COMMON_TOOLS
     = map (fqdn \<circ> LLMParameters) [TOOLS, TOOL_CHOICE_NAMED, TOOL_CHOICE_AUTO, TOOL_CHOICE_REQUIRED, TOOL_CHOICE_NONE]"

definition OPENAI_GPT3_4 :: "string list" where
  "OPENAI_GPT3_4
     = map (fqdn \<circ> LLMParameters) [TEMPERATURE, TOP_P, SEED, LENGTH, NUMBER_OF_CHOICES, PARALLEL_TOOL_CALLS]"

definition OPENAI_O_SERIES :: "string list" where
  "OPENAI_O_SERIES
     = map (fqdn \<circ> LLMParameters) [LENGTH, SEED, RESPONSE_FORMAT, REASONING_EFFORT, NUMBER_OF_CHOICES]"

definition OPENAI_GPT4_1 :: "string list" where
  "OPENAI_GPT4_1
     = map (fqdn \<circ> LLMParameters) [TOP_P, LENGTH, SEED, TEMPERATURE, RESPONSE_FORMAT, NUMBER_OF_CHOICES, PREDICTED_OUTPUT, PARALLEL_TOOL_CALLS]"

definition OPENAI_GPT5 :: "string list" where
  "OPENAI_GPT5
     = map (fqdn \<circ> LLMParameters) [LENGTH, RESPONSE_FORMAT, PARALLEL_TOOL_CALLS, REASONING_EFFORT, VERBOSITY]"

definition ANTHROPIC_CLAUDE3 :: "string list" where
  "ANTHROPIC_CLAUDE3
     = map (fqdn \<circ> LLMParameters) [TEMPERATURE, TOP_K, TOP_P, STOP_TOKEN, LENGTH, TOOLS]"

definition ANTHROPIC_CLAUDE_PLUS :: "string list" where
  "ANTHROPIC_CLAUDE_PLUS
     = map (fqdn \<circ> LLMParameters) [TEMPERATURE, TOP_P, STOP_TOKEN, LENGTH, CACHE_POINTS, PARALLEL_TOOL_CALLS]"

definition GOOGLE_GEMINI_1_5_PRO :: "string list" where
  "GOOGLE_GEMINI_1_5_PRO
     = map (fqdn \<circ> LLMParameters) [TEMPERATURE, TOP_P, TOP_K, RESPONSE_FORMAT, LENGTH]"

definition GOOGLE_GEMINI_1_5_FLASH :: "string list" where
  "GOOGLE_GEMINI_1_5_FLASH = map (fqdn \<circ> LLMParameters) [TEMPERATURE, TOP_P, TOP_K, LENGTH]"

definition GOOGLE_GEMINI_2_5_PRO :: "string list" where
  "GOOGLE_GEMINI_2_5_PRO
     = map (fqdn \<circ> LLMParameters) [TEMPERATURE, TOP_P, TOP_K, RESPONSE_FORMAT, LENGTH, THINKING_BUDGET, TOOLS]"

definition GOOGLE_GEMINI_2_5_FLASH :: "string list" where
  "GOOGLE_GEMINI_2_5_FLASH
     = map (fqdn \<circ> LLMParameters) [RESPONSE_FORMAT, TEMPERATURE, LENGTH, TOP_P, THINKING_BUDGET]"

definition modelProfiles :: "(string \<times> ModelProfile) list" where
  "modelProfiles =
     [(''openai-chat-gpt'', \<lparr>provider = ''OpenAI'',
         params = OPENAI_GPT3_4 @ COMMON_TOOLS\<rparr>),
      (''openai-gpt-4'', \<lparr>provider = ''OpenAI'',
         params = OPENAI_GPT3_4 @ COMMON_TOOLS\<rparr>),
      (''openai-gpt-4-turbo'', \<lparr>provider = ''OpenAI'',
         params = OPENAI_GPT3_4 @ COMMON_TOOLS @ [fqdn (LLMParameters RESPONSE_FORMAT)]\<rparr>),
      (''openai-gpt-4o'', \<lparr>provider = ''OpenAI'',
         params = OPENAI_GPT3_4 @ COMMON_TOOLS @ [fqdn (LLMParameters RESPONSE_FORMAT), fqdn (LLMParameters PREDICTED_OUTPUT)]\<rparr>),
      (''openai-gpt-4o-mini'', \<lparr>provider = ''OpenAI'',
         params = OPENAI_GPT3_4 @ COMMON_TOOLS @ [fqdn (LLMParameters RESPONSE_FORMAT), fqdn (LLMParameters PREDICTED_OUTPUT)]\<rparr>),
      (''openai-o1'', \<lparr>provider = ''OpenAI'',
         params = OPENAI_O_SERIES @ COMMON_TOOLS\<rparr>),
      (''openai-o1-mini'', \<lparr>provider = ''OpenAI'',
         params
     = map (fqdn \<circ> LLMParameters) [LENGTH, SEED, NUMBER_OF_CHOICES]\<rparr>),
      (''openai-o3'', \<lparr>provider = ''OpenAI'',
         params = OPENAI_O_SERIES @ COMMON_TOOLS\<rparr>),
      (''openai-o3-mini'', \<lparr>provider = ''OpenAI'',
         params = OPENAI_O_SERIES @ COMMON_TOOLS\<rparr>),
      (''openai-o4-mini'', \<lparr>provider = ''OpenAI'',
         params = OPENAI_O_SERIES @ COMMON_TOOLS\<rparr>),
      (''openai-gpt4.1'', \<lparr>provider = ''OpenAI'',
         params = OPENAI_GPT4_1 @ COMMON_TOOLS\<rparr>),
      (''openai-gpt4.1-mini'', \<lparr>provider = ''OpenAI'',
         params = OPENAI_GPT4_1 @ COMMON_TOOLS\<rparr>),
      (''openai-gpt4.1-nano'', \<lparr>provider = ''OpenAI'',
         params = OPENAI_GPT4_1 @ COMMON_TOOLS\<rparr>),
      (''openai-gpt-5'', \<lparr>provider = ''OpenAI'',
         params = OPENAI_GPT5 @ COMMON_TOOLS\<rparr>),
      (''openai-gpt-5-mini'', \<lparr>provider = ''OpenAI'',
         params = OPENAI_GPT5 @ COMMON_TOOLS\<rparr>),
      (''openai-gpt-5-nano'', \<lparr>provider = ''OpenAI'',
         params = OPENAI_GPT5 @ COMMON_TOOLS\<rparr>),
      (''Grazie_model_1'', \<lparr>provider = ''OpenAI'',
         params = OPENAI_GPT5 @ COMMON_TOOLS\<rparr>),
      (''Grazie_model_2'', \<lparr>provider = ''OpenAI'',
         params = OPENAI_GPT5 @ COMMON_TOOLS\<rparr>),
      (''openai-instruct-gpt'', \<lparr>provider = ''OpenAI'',
         params = [fqdn (LLMParameters TEMPERATURE)]\<rparr>),
      (''openai-embedding-ada'', \<lparr>provider = ''OpenAI'', params = []\<rparr>),
      (''openai-embedding-small'', \<lparr>provider = ''OpenAI'', params = []\<rparr>),
      (''openai-embedding-large'', \<lparr>provider = ''OpenAI'', params = []\<rparr>),
      (''anthropic-claude-3-haiku'', \<lparr>provider = ''Anthropic'',
         params = ANTHROPIC_CLAUDE3\<rparr>),
      (''anthropic-claude-3-opus'', \<lparr>provider = ''Anthropic'',
         params = ANTHROPIC_CLAUDE3\<rparr>),
      (''anthropic-claude-3.5-haiku'', \<lparr>provider = ''Anthropic'',
         params = ANTHROPIC_CLAUDE_PLUS @ COMMON_TOOLS\<rparr>),
      (''anthropic-claude-3.5-sonnet'', \<lparr>provider = ''Anthropic'',
         params
     = map (fqdn \<circ> LLMParameters) [TEMPERATURE, TOP_P, STOP_TOKEN, LENGTH, PARALLEL_TOOL_CALLS] @ COMMON_TOOLS\<rparr>),
      (''anthropic-claude-3.7-sonnet'', \<lparr>provider = ''Anthropic'',
         params = ANTHROPIC_CLAUDE_PLUS @ COMMON_TOOLS\<rparr>),
      (''anthropic-claude-4-sonnet'', \<lparr>provider = ''Anthropic'',
         params = ANTHROPIC_CLAUDE_PLUS @ COMMON_TOOLS\<rparr>),
      (''anthropic-claude-4-opus'', \<lparr>provider = ''Anthropic'',
         params = ANTHROPIC_CLAUDE_PLUS @ COMMON_TOOLS\<rparr>),
      (''anthropic-claude-4.1-opus'', \<lparr>provider = ''Anthropic'',
         params = ANTHROPIC_CLAUDE_PLUS @ COMMON_TOOLS\<rparr>),
      (''google-chat-gemini-pro-1.5'', \<lparr>provider = ''Google'',
         params = GOOGLE_GEMINI_1_5_PRO @ COMMON_TOOLS\<rparr>),
      (''google-chat-gemini-flash-1.5'', \<lparr>provider = ''Google'',
         params = GOOGLE_GEMINI_1_5_FLASH @ COMMON_TOOLS\<rparr>),
      (''google-chat-gemini-flash-2.0'', \<lparr>provider = ''Google'',
         params = GOOGLE_GEMINI_1_5_PRO @ COMMON_TOOLS\<rparr>),
      (''google-chat-gemini-flash-lite-2.0'', \<lparr>provider = ''Google'',
         params = GOOGLE_GEMINI_1_5_PRO @ COMMON_TOOLS\<rparr>),
      (''google-chat-gemini-pro-2.5'', \<lparr>provider = ''Google'',
         params = GOOGLE_GEMINI_2_5_PRO\<rparr>),
      (''google-chat-gemini-flash-2.5'', \<lparr>provider = ''Google'',
         params = GOOGLE_GEMINI_2_5_FLASH @ COMMON_TOOLS\<rparr>),
      (''google-chat-gemini-flash-lite-2.5'', \<lparr>provider = ''Google'',
         params = GOOGLE_GEMINI_2_5_FLASH @ COMMON_TOOLS\<rparr>)]"

text \<open>
  \<open>modelProfiles[profile]\<close> is a property read on an object literal: an own property, or a
  property inherited from \<open>Object.prototype\<close>, or \<open>undefined\<close>. Every property of
  \<open>Object.prototype\<close> is a function or an object, so an inherited value is truthy and has no
  \<open>params\<close>.
\<close>

datatype 'a property = Own 'a | Inherited | Undefined

definition Object_prototype_properties :: "string list" where
  "Object_prototype_properties =
     [''constructor'', ''__defineGetter__'', ''__defineSetter__'', ''hasOwnProperty'',
      ''__lookupGetter__'', ''__lookupSetter__'', ''isPrototypeOf'', ''propertyIsEnumerable'',
      ''toString'', ''valueOf'', ''__proto__'', ''toLocaleString'']"

definition get_property :: "(string \<times> 'a) list \<Rightarrow> string \<Rightarrow> 'a property" where
  "get_property obj k =
     (case map_of obj k of
        Some v \<Rightarrow> Own v
      | None \<Rightarrow> if k \<in> set Object_prototype_properties then Inherited else Undefined)"

section \<open>Request assembly\<close>

text \<open>
  What \<open>catch (e)\<close> receives in \<open>executeTools\<close>, as far as the handler reads it: \<open>null\<close> or
  \<open>undefined\<close>, on which reading \<open>e.message\<close> throws, or any other value, of which
  \<open>ThrownWith m\<close> keeps the value \<open>m\<close> of \<open>e.message\<close> (the message string of an \<open>Error\<close>,
  \<open>JUndefined\<close> for a value without that property).
\<close>

datatype thrown = ThrownNullish | ThrownWith jsvalue

text \<open>
  A tool definition. \<open>execute\<close> is applied to the argument text of a call and stands for
  \<open>JSON.parse\<close> of the text followed by the tool's own function (in v2.11.0 the function
  \<open>createValidatedTool\<close> wrapped around it): \<open>Inl t\<close> when either throws, and \<open>Inr v\<close> for the
  value returned, of some type \<open>'r\<close> of JavaScript values.
\<close>

record 'r ToolDefinition =
  tool_name :: string
  tool_description :: string
  tool_parameters :: string
  execute :: "string \<Rightarrow> thrown + 'r"

text \<open>
  The value of a parameter: one the caller gave to the builder, the \<open>true\<close> that
  \<open>toolChoiceNone(true)\<close> sets, or the object \<open>{ type: 'function', function: { name: v } }\<close>
  that \<open>toolChoiceNamed(v)\<close> builds.
\<close>

datatype 'a pvalue = Given 'a | TrueValue | FunctionChoice "'a pvalue"

text \<open>
  The entries of the \<open>data\<close> array: \<open>{ type, fqdn }\<close>, then the value object. The value
  objects are kept unencoded: \<open>ToolsValue ts\<close> is \<open>{ type: "json", value:
  JSON.stringify(ts without execute) }\<close> and \<open>ParamValue t v\<close> is \<open>{ type: t, value: v
  encoded for t }\<close>.
\<close>

datatype ('a, 'r) entry =
    ParamDef string string
  | ToolsValue "'r ToolDefinition list"
  | ParamValue string "'a pvalue"


text \<open>What the client emits on its event emitter.\<close>

record 'r ToolExecutionResult =
  result_name :: jsvalue
  success :: bool
  result_value :: "'r option"     \<comment> \<open>\<open>result\<close>, \<open>None\<close> when the object has no such property\<close>
  result_error :: jsvalue         \<comment> \<open>\<open>error\<close>, \<open>JUndefined\<close> when the object has no such property\<close>

datatype 'r emitted =
    parameter_warning param_key string      \<comment> \<open>\<open>{ parameter, profile, message }\<close>\<close>
  | tool_warning int                         \<comment> \<open>the message names \<open>maxIterations\<close>\<close>
  | tool_start "tool_call list"
  | tool_finish "'r ToolExecutionResult list"

text \<open>
  The loop of \<open>buildParametersArray\<close> over \<open>Object.entries(params)\<close>: the warnings emitted,
  and the entries pushed or the \<open>TypeError\<close> of \<open>modelProfile.params.has\<close> on an inherited
  value.
\<close>

fun parameter_entries ::
  "ModelProfile property \<Rightarrow> string \<Rightarrow> bool \<Rightarrow> (param_key \<times> 'a pvalue) list
     \<Rightarrow> 'r emitted list \<times> (error + ('a, 'r) entry list)" where
  "parameter_entries modelProfile profile eventEmitter [] = ([], Inr [])"
| "parameter_entries modelProfile profile eventEmitter ((key, v) # rest) =
     (let paramDef = LLMParameters key;
          pushed = [ParamDef (ptype paramDef) (fqdn paramDef), ParamValue (ptype paramDef) v]
      in (case modelProfile of
            Inherited \<Rightarrow> ([], Inl TypeError)
          | Undefined \<Rightarrow>
              (case parameter_entries modelProfile profile eventEmitter rest of
                 (ws, Inl e) \<Rightarrow> (ws, Inl e)
               | (ws, Inr data) \<Rightarrow> (ws, Inr (pushed @ data)))
          | Own m \<Rightarrow>
              if fqdn paramDef \<notin> set (params m)
              then (case parameter_entries modelProfile profile eventEmitter rest of
                      (ws, r) \<Rightarrow>
                        ((if eventEmitter then [parameter_warning key profile] else []) @ ws, r))
              else (case parameter_entries modelProfile profile eventEmitter rest of
                      (ws, Inl e) \<Rightarrow> (ws, Inl e)
                    | (ws, Inr data) \<Rightarrow> (ws, Inr (pushed @ data)))))"

definition tools_entries ::
  "ModelProfile property \<Rightarrow> 'r ToolDefinition list \<Rightarrow> error + ('a, 'r) entry list" where
  \<comment> \<open>\<open>if (tools.length > 0) { if (!modelProfile || modelProfile.params.has(TOOLS.fqdn)) ... }\<close>\<close>
  "tools_entries modelProfile tools =
     (let pushed = [ParamDef (ptype (LLMParameters TOOLS)) (fqdn (LLMParameters TOOLS)),
                    ToolsValue tools]
      in if tools = [] then Inr []
         else (case modelProfile of
                 Undefined \<Rightarrow> Inr pushed
               | Inherited \<Rightarrow> Inl TypeError
               | Own m \<Rightarrow>
                   if fqdn (LLMParameters TOOLS) \<in> set (params m) then Inr pushed else Inr []))"

definition buildParametersArray ::
  "(param_key \<times> 'a pvalue) list \<Rightarrow> 'r ToolDefinition list \<Rightarrow> string \<Rightarrow> bool
     \<Rightarrow> 'r emitted list \<times> (error + ('a, 'r) entry list option)" where
  "buildParametersArray ps tools profile eventEmitter =
     (let modelProfile = get_property modelProfiles profile in
      (case tools_entries modelProfile tools of
         Inl e \<Rightarrow> ([], Inl e)
       | Inr data0 \<Rightarrow>
           (case parameter_entries modelProfile profile eventEmitter ps of
              (ws, Inl e) \<Rightarrow> (ws, Inl e)
            | (ws, Inr data1) \<Rightarrow>
                (ws, Inr (if data0 @ data1 = [] then None else Some (data0 @ data1))))))"

text \<open>
  What the filter amounts to for a profile of the registry, written without the loop: the
  entries of the parameters whose wire name the profile supports, and a warning for each
  of the others.
\<close>

definition pushed_entries :: "param_key \<times> 'a pvalue \<Rightarrow> ('a, 'r) entry list" where
  "pushed_entries kv =
     [ParamDef (ptype (LLMParameters (fst kv))) (fqdn (LLMParameters (fst kv))),
      ParamValue (ptype (LLMParameters (fst kv))) (snd kv)]"




text \<open>
  The conversation history. The \<open>result\<close> of a tool message is what \<open>JSON.stringify\<close> made of
  the result value: for the value a tool returned, a text or \<open>undefined\<close>; for the error
  object \<open>{ error: m }\<close>, its JSON text, kept as \<open>EncodedError m\<close>.
\<close>

datatype encoded =
    EncodedResult "string option"
  | EncodedError jsvalue

datatype chat_message =
    user_message string
  | system_message string
  | assistant_message_text string
  | assistant_message_tool jsvalue jsvalue string
  | tool_message jsvalue jsvalue encoded
  | media_message string string

fun is_system_message :: "chat_message \<Rightarrow> bool" where
  "is_system_message (system_message c) = True"
| "is_system_message m = False"

record ('a, 'r) ChatSession =
  profile :: string
  tools :: "'r ToolDefinition list"
  parameters :: "(param_key \<times> 'a pvalue) list"
  systemMessage :: "string option"

text \<open>
  Arrays are objects on a heap, so that a function that is handed the caller's array can be
  seen to write into it or not: \<open>arrays h r\<close> is the content of the array at reference \<open>r\<close>,
  and the references below \<open>allocated h\<close> are in use.
\<close>

record 'm heap =
  arrays :: "nat \<Rightarrow> 'm list"
  allocated :: nat

definition new_array :: "'m heap \<Rightarrow> 'm list \<Rightarrow> 'm heap \<times> nat" where
  \<comment> \<open>an array literal or a spread \<open>[...xs]\<close>: a fresh array\<close>
  "new_array h xs =
     (h\<lparr>arrays := (arrays h)(allocated h := xs), allocated := Suc (allocated h)\<rparr>, allocated h)"

definition unshift :: "'m heap \<Rightarrow> nat \<Rightarrow> 'm \<Rightarrow> 'm heap" where
  "unshift h r x = h\<lparr>arrays := (arrays h)(r := x # arrays h r)\<rparr>"

text \<open>
  \<open>requestData\<close>: \<open>chat_messages\<close> is the reference of the array \<open>allMessages\<close>. The
  \<open>prompt\<close> field, a name made from the clock, is left out.
\<close>

record ('a, 'r) requestData =
  rd_profile :: string
  chat_messages :: nat
  rd_parameters :: "('a, 'r) entry list option"

definition buildRequestBody ::
  "('a, 'r) ChatSession \<Rightarrow> chat_message heap \<Rightarrow> nat
     \<Rightarrow> 'r emitted list \<times> chat_message heap \<times> (error + ('a, 'r) requestData)" where
  "buildRequestBody s h messages =
     (let (h1, allMessages) = new_array h (arrays h messages);
          h2 = (if truthy (systemMessage s) \<and> \<not> list_ex is_system_message (arrays h messages)
                then unshift h1 allMessages
                       (system_message (case systemMessage s of None \<Rightarrow> [] | Some c \<Rightarrow> c))
                else h1)
      in (case buildParametersArray (parameters s) (tools s) (profile s) True of
            (ws, Inl e) \<Rightarrow> (ws, h2, Inl e)
          | (ws, Inr parametersData) \<Rightarrow>
              (ws, h2, Inr \<lparr>rd_profile = profile s, chat_messages = allMessages,
                           rd_parameters = parametersData\<rparr>)))"

text \<open>
  The body that is sent, \<open>JSON.stringify(requestBody)\<close>: the request with the content of
  its message array. \<open>request_body\<close> is \<open>buildRequestBody\<close> on a heap that holds the
  caller's array and nothing else.
\<close>

record ('a, 'r) request =
  req_profile :: string
  req_messages :: "chat_message list"
  req_parameters :: "('a, 'r) entry list option"

definition request_body ::
  "('a, 'r) ChatSession \<Rightarrow> chat_message list
     \<Rightarrow> 'r emitted list \<times> (error + ('a, 'r) request)" where
  "request_body s messages =
     (case buildRequestBody s \<lparr>arrays = (\<lambda>r. messages), allocated = 1\<rparr> 0 of
        (ws, h, Inl e) \<Rightarrow> (ws, Inl e)
      | (ws, h, Inr rd) \<Rightarrow>
          (ws, Inr \<lparr>req_profile = rd_profile rd, req_messages = arrays h (chat_messages rd),
                    req_parameters = rd_parameters rd\<rparr>))"

section \<open>The agent loop (ChatSession.stream, step and run)\<close>

text \<open>
  What a run can observe of the outside: the requests handed to the transport, in order,
  and the events emitted on the client.
\<close>

record ('a, 'r) world =
  sent :: "('a, 'r) request list"
  emitted :: "'r emitted list"

definition new_world :: "('a, 'r) world" where
  "new_world = \<lparr>sent = [], emitted = []\<rparr>"

text \<open>
  \<open>ChatSession.stream\<close> on a message array. The transport \<open>fetch\<close> is a parameter: given
  the number of requests sent before and the request, it returns the chunks of the
  response body or raises. The parser variant \<open>parse\<close> is \<open>parseLine\<close> with a decoder. The
  result is the world after the call and the events yielded, or the exception that ends the
  iteration (the events yielded before an exception reach no consumer in \<open>step\<close> or \<open>run\<close>).
\<close>

definition stream ::
  "(SSEParser \<Rightarrow> string \<Rightarrow> error + (SSEParser \<times> 'q stream_event option))
     \<Rightarrow> (nat \<Rightarrow> ('a, 'r) request \<Rightarrow> error + string list)
     \<Rightarrow> ('a, 'r) ChatSession \<Rightarrow> ('a, 'r) world \<Rightarrow> chat_message list
     \<Rightarrow> ('a, 'r) world \<times> (error + 'q stream_event list)" where
  "stream parse fetch s w messages =
     (case request_body s messages of
        (ws, Inl e) \<Rightarrow> (w\<lparr>emitted := emitted w @ ws\<rparr>, Inl e)
      | (ws, Inr requestBody) \<Rightarrow>
          (let w1 = w\<lparr>sent := sent w @ [requestBody], emitted := emitted w @ ws\<rparr> in
           (case fetch (length (sent w)) requestBody of
              Inl e \<Rightarrow> (w1, Inl e)
            | Inr chunks \<Rightarrow>
                (case stream_response parse chunks of
                   (events, Some e) \<Rightarrow> (w1, Inl e)
                 | (events, None) \<Rightarrow> (w1, Inr events)))))"

text \<open>
  The session \<open>step\<close> builds when \<open>forceTextResponse\<close> is set. It re-applies every original
  parameter through the builder method named after the key: \<open>RESPONSE_FORMAT\<close> gives
  \<open>responseFormat\<close> and \<open>TOOLS\<close> gives \<open>tools\<close>, which are no builder methods, so these keys
  are dropped; \<open>toolChoiceNamed\<close> wraps its argument again; every other method stores its
  argument. Then \<open>toolChoiceNone(true)\<close> is set.
\<close>

definition builder_method :: "param_key \<Rightarrow> ('a pvalue \<Rightarrow> 'a pvalue) option" where
  "builder_method key =
     (case key of
        RESPONSE_FORMAT \<Rightarrow> None
      | TOOLS \<Rightarrow> None
      | TOOL_CHOICE_NAMED \<Rightarrow> Some FunctionChoice
      | _ \<Rightarrow> Some (\<lambda>v. v))"

definition forced_parameters :: "(param_key \<times> 'a pvalue) list \<Rightarrow> (param_key \<times> 'a pvalue) list" where
  "forced_parameters originalParams =
     AList.update TOOL_CHOICE_NONE TrueValue
       (fold (\<lambda>(key, v) builder.
                (case builder_method key of
                   None \<Rightarrow> builder
                 | Some setter \<Rightarrow> AList.update key (setter v) builder))
          originalParams [])"

definition forced_session :: "('a, 'r) ChatSession \<Rightarrow> ('a, 'r) ChatSession" where
  "forced_session s = s\<lparr>parameters := forced_parameters (parameters s)\<rparr>"

text \<open>
  The loop of \<open>step\<close> (and of \<open>run\<close> in v2.11.0) over the events:
  \<open>assistantResponse += event.content\<close> appends the content as a string, whatever value it
  is, and a \<open>tool_calls\<close> event replaces \<open>toolCalls\<close>.
\<close>

fun collect :: "'q stream_event list \<Rightarrow> string \<times> tool_call list \<Rightarrow> string \<times> tool_call list" where
  "collect [] acc = acc"
| "collect (Text c # events) (assistantResponse, toolCalls) =
     collect events (assistantResponse @ js_string c, toolCalls)"
| "collect (ToolCalls calls # events) (assistantResponse, toolCalls) =
     collect events (assistantResponse, calls)"
| "collect (Quota q # events) acc = collect events acc"

text \<open>
  The generator \<open>step\<close> runs in two parts. \<open>step_begin\<close> runs it to its first stop: the
  \<open>yield\<close> of a tool request, which keeps the generator's variables for the resumption, or
  the \<open>return\<close> of the text response. \<open>step_resume\<close> runs it from the \<open>yield\<close>, with the
  results the caller passes to \<open>next\<close>, to its \<open>return\<close>.
\<close>

record AgentTextResponse =
  response_content :: string
  response_messages :: "chat_message list"

datatype step_result =
    tool_request "tool_call list" string "chat_message list"
      \<comment> \<open>\<open>{ type: 'tool_request', calls }\<close>, with \<open>assistantResponse\<close> and \<open>finalMessages\<close>\<close>
  | text_response AgentTextResponse

definition step_begin ::
  "(SSEParser \<Rightarrow> string \<Rightarrow> error + (SSEParser \<times> 'q stream_event option))
     \<Rightarrow> (nat \<Rightarrow> ('a, 'r) request \<Rightarrow> error + string list)
     \<Rightarrow> ('a, 'r) ChatSession \<Rightarrow> ('a, 'r) world \<Rightarrow> chat_message list \<Rightarrow> bool
     \<Rightarrow> ('a, 'r) world \<times> (error + step_result)" where
  "step_begin parse fetch s w messages forceTextResponse =
     (let sessionForStream = (if forceTextResponse then forced_session s else s) in
      (case stream parse fetch sessionForStream w messages of
         (w1, Inl e) \<Rightarrow> (w1, Inl e)
       | (w1, Inr events) \<Rightarrow>
           (case collect events ([], []) of
              (assistantResponse, toolCalls) \<Rightarrow>
                if toolCalls \<noteq> []
                then (w1\<lparr>emitted := emitted w1 @ [tool_start toolCalls]\<rparr>,
                      Inr (tool_request toolCalls assistantResponse messages))
                else (w1, Inr (text_response
                       \<lparr>response_content = assistantResponse,
                        response_messages
                          = messages @ [assistant_message_text assistantResponse]\<rparr>)))))"

text \<open>
  The value \<open>resultValue\<close> that is encoded for the history, and its encoding.
  \<open>JSON.stringify\<close> is a built-in of the language and a tool may return any value, so the
  encoding takes as a parameter what \<open>JSON.stringify\<close> does on a value a tool returned:
  \<open>stringify v\<close> is the text, or \<open>None\<close> for \<open>undefined\<close>, or the exception (a cyclic
  structure and a \<open>BigInt\<close> have no encoding). The error object holds one decoded value and
  has an encoding.
\<close>

datatype 'r payload =
    ResultValue "'r option"     \<comment> \<open>\<open>result.result\<close>\<close>
  | ErrorObject jsvalue         \<comment> \<open>\<open>{ error: ... }\<close>\<close>

definition resultValue :: "'r ToolExecutionResult \<Rightarrow> 'r payload" where
  \<comment> \<open>\<open>result.success ? result.result : { error: result.error || 'Unknown execution error' }\<close>\<close>
  "resultValue r =
     (if success r then ResultValue (result_value r)
      else ErrorObject (if js_truthy (result_error r) then result_error r
                        else JString ''Unknown execution error''))"

definition JSON_stringify ::
  "('r \<Rightarrow> error + string option) \<Rightarrow> 'r payload \<Rightarrow> error + encoded" where
  "JSON_stringify stringify v =
     (case v of
        ResultValue None \<Rightarrow> Inr (EncodedResult None)
      | ResultValue (Some x) \<Rightarrow>
          (case stringify x of Inl e \<Rightarrow> Inl e | Inr t \<Rightarrow> Inr (EncodedResult t))
      | ErrorObject m \<Rightarrow> Inr (EncodedError m))"

text \<open>
  \<open>toolExecutionResults.forEach((result, index) => { const call = toolCalls[index]; ... })\<close>:
  the calls left are consumed along with the results; a result beyond the last call reads
  \<open>call.id\<close> of \<open>undefined\<close>. Each round pushes the assistant-tool-call message and the
  tool-result message of the call.
\<close>

fun push_results ::
  "('r \<Rightarrow> error + string option) \<Rightarrow> tool_call list \<Rightarrow> 'r ToolExecutionResult list
     \<Rightarrow> chat_message list \<Rightarrow> error + chat_message list" where
  "push_results stringify calls [] finalMessages = Inr finalMessages"
| "push_results stringify [] (r # results) finalMessages = Inl TypeError"
| "push_results stringify (call # calls) (r # results) finalMessages =
     (case JSON_stringify stringify (resultValue r) of
        Inl e \<Rightarrow> Inl e
      | Inr t \<Rightarrow>
          push_results stringify calls results
            (finalMessages
               @ [assistant_message_tool (call_id call) (call_name call) (arguments call),
                  tool_message (call_id call) (call_name call) t]))"

definition step_resume ::
  "('r \<Rightarrow> error + string option) \<Rightarrow> ('a, 'r) world \<Rightarrow> tool_call list \<Rightarrow> string
     \<Rightarrow> chat_message list \<Rightarrow> 'r ToolExecutionResult list
     \<Rightarrow> ('a, 'r) world \<times> (error + AgentTextResponse)" where
  "step_resume stringify w toolCalls assistantResponse finalMessages toolExecutionResults =
     (let w1 = w\<lparr>emitted := emitted w @ [tool_finish toolExecutionResults]\<rparr> in
      (case push_results stringify toolCalls toolExecutionResults finalMessages of
         Inl e \<Rightarrow> (w1, Inl e)
       | Inr ms \<Rightarrow> (w1, Inr \<lparr>response_content = assistantResponse, response_messages = ms\<rparr>)))"

text \<open>
  \<open>executeTools\<close>: one result per call, in the order of the calls. The handler
  \<open>catch (e) { return { ..., error: e.message } }\<close> itself throws a \<open>TypeError\<close> when \<open>e\<close> is
  \<open>null\<close> or \<open>undefined\<close>; the promise of that call is then rejected, and with it the
  \<open>Promise.all\<close> that \<open>executeTools\<close> returns.
\<close>

definition toolMap_get :: "'r ToolDefinition list \<Rightarrow> jsvalue \<Rightarrow> 'r ToolDefinition option" where
  \<comment> \<open>\<open>new Map(toolLibrary.map(t => [t.name, t])).get(call.name)\<close>: the last tool of a name\<close>
  "toolMap_get toolLibrary n =
     (case n of
        JString nm \<Rightarrow> map_of (rev (map (\<lambda>t. (tool_name t, t)) toolLibrary)) nm
      | _ \<Rightarrow> None)"

definition execute_call ::
  "'r ToolDefinition list \<Rightarrow> tool_call \<Rightarrow> error + 'r ToolExecutionResult" where
  "execute_call toolLibrary call =
     (case toolMap_get toolLibrary (call_name call) of
        None \<Rightarrow>
          Inr \<lparr>result_name = call_name call, success = False, result_value = None,
               result_error = JString (''Tool '' @ [CHR 0x27] @ js_string (call_name call)
                  @ [CHR 0x27] @ '' not found.'')\<rparr>
      | Some tool \<Rightarrow>
          (case execute tool (if arguments call = [] then ''{}'' else arguments call) of
             Inr v \<Rightarrow>
               Inr \<lparr>result_name = call_name call, success = True, result_value = Some v,
                    result_error = JUndefined\<rparr>
           | Inl ThrownNullish \<Rightarrow> Inl TypeError
           | Inl (ThrownWith m) \<Rightarrow>
               Inr \<lparr>result_name = call_name call, success = False, result_value = None,
                    result_error = m\<rparr>))"

fun executeTools ::
  "tool_call list \<Rightarrow> 'r ToolDefinition list \<Rightarrow> error + 'r ToolExecutionResult list" where
  "executeTools [] toolLibrary = Inr []"
| "executeTools (call # toolCalls) toolLibrary =
     (case execute_call toolLibrary call of
        Inl e \<Rightarrow> Inl e
      | Inr r \<Rightarrow>
          (case executeTools toolCalls toolLibrary of
             Inl e \<Rightarrow> Inl e
           | Inr rs \<Rightarrow> Inr (r # rs)))"

subsection \<open>run in v2.14.0\<close>







subsection \<open>run in v2.11.0\<close>






subsection \<open>What a turn gathers\<close>


text \<open>
  The two messages a round trip appends for a call and its result, the result's encoding
  written out: the encoding of the returned value for a successful result, the error
  object with the result's error or the default text for a failed one.
\<close>

definition round_trip_entries ::
  "('r \<Rightarrow> error + string option) \<Rightarrow> tool_call \<Rightarrow> 'r ToolExecutionResult \<Rightarrow> chat_message list" where
  "round_trip_entries stringify call r =
     [assistant_message_tool (call_id call) (call_name call) (arguments call),
      tool_message (call_id call) (call_name call)
        (if success r
         then EncodedResult (case result_value r of
                               None \<Rightarrow> None
                             | Some v \<Rightarrow> (case stringify v of Inl e \<Rightarrow> None | Inr t \<Rightarrow> t))
         else EncodedError (if js_truthy (result_error r) then result_error r
                            else JString ''Unknown execution error''))]"

definition encodable :: "('r \<Rightarrow> error + string option) \<Rightarrow> 'r ToolExecutionResult \<Rightarrow> bool" where
  \<comment> \<open>\<open>JSON.stringify\<close> does not throw on the value of a successful result\<close>
  "encodable stringify r =
     (if success r
      then (case result_value r of
              None \<Rightarrow> True
            | Some v \<Rightarrow> (case stringify v of Inl e \<Rightarrow> False | Inr t \<Rightarrow> True))
      else True)"


section \<open>Example sessions\<close>

text \<open>
  A weather tool and sessions with it: on the registered profile
  \<open>google-chat-gemini-flash-2.5\<close>, which supports no seed, with a temperature and a seed
  requested; on the registered profile \<open>anthropic-claude-3-haiku\<close>, which supports tools
  but no tool choice; on an unregistered profile; and on the profile name \<open>constructor\<close>.
  The last session has a weather tool whose function does \<open>throw null\<close>.
\<close>

definition get_weather :: "string ToolDefinition" where
  "get_weather =
     \<lparr>tool_name = ''get_weather'', tool_description = ''Weather of a city'',
      tool_parameters = ''{}'', execute = (\<lambda>args. Inr ''sunny'')\<rparr>"

definition gemini_session :: "(int, string) ChatSession" where
  "gemini_session =
     \<lparr>profile = ''google-chat-gemini-flash-2.5'', tools = [get_weather],
      parameters = [(TEMPERATURE, Given 1), (SEED, Given 12345)],
      systemMessage = Some ''Be brief.''\<rparr>"


definition unregistered_session :: "(int, string) ChatSession" where
  "unregistered_session = gemini_session\<lparr>profile := ''my-own-model''\<rparr>"

definition constructor_session :: "(int, string) ChatSession" where
  "constructor_session = gemini_session\<lparr>profile := ''constructor''\<rparr>"



definition example_heap :: "chat_message heap" where
  "example_heap =
     \<lparr>arrays = (\<lambda>r. if r = 0 then [user_message ''hi'', system_message ''Be long.'']
                     else if r = 1 then [user_message ''hi''] else []),
      allocated = 2\<rparr>"

text \<open>
  Three services: one answers every request with the single fragment of \<open>example_chunks\<close>,
  one answers every request with the two tool calls of \<open>tool_chunks\<close>, and one answers the
  first request with these two calls and every later one with the text of \<open>text_chunks\<close>.
  \<open>example_stringify\<close> is \<open>JSON.stringify\<close> on the result of the weather tool; the examples
  encode no other value, and on any other it raises.
\<close>

definition example_fetch :: "nat \<Rightarrow> (int, string) request \<Rightarrow> error + string list" where
  "example_fetch n requestBody = Inr example_chunks"

definition tool_fetch :: "nat \<Rightarrow> (int, string) request \<Rightarrow> error + string list" where
  "tool_fetch n requestBody = Inr tool_chunks"


definition example_stringify :: "string \<Rightarrow> error + string option" where
  \<open>example_stringify v = (if v = ''sunny'' then Inr (Some ''"sunny"'') else Inl StringifyError)\<close>

definition weather_results :: "string ToolExecutionResult list" where
  \<comment> \<open>what \<open>executeTools\<close> gives for the two calls of \<open>tool_chunks\<close> with the weather tool\<close>
  "weather_results =
     [\<lparr>result_name = JString ''get_weather'', success = True, result_value = Some ''sunny'',
       result_error = JUndefined\<rparr>,
      \<lparr>result_name = JString ''get_time'', success = False, result_value = None,
       result_error = JString (''Tool '' @ [CHR 0x27] @ ''get_time'' @ [CHR 0x27]
          @ '' not found.'')\<rparr>]"

definition supported_entries_of_gemini :: "(int, string) entry list" where
  \<comment> \<open>the parameter array of \<open>gemini_session\<close>: the tools and the temperature, no seed\<close>
  "supported_entries_of_gemini =
     [ParamDef ''json'' ''llm.parameters.tools'', ToolsValue [get_weather],
      ParamDef ''double'' ''llm.parameters.temperature'', ParamValue ''double'' (Given 1)]"

section \<open>The accumulator and the flush\<close>

text \<open>
  The accumulator after a fragment: the entry of the fragment's index is the old entry (or
  a new call) merged with the fragment, every other entry is as before, and the keys stay
  distinct.
\<close>

lemma map_of_accumulate:
  "map_of (accumulate f m) =
     (map_of m)(fragment_index f \<mapsto> merge_fragment f (entry_or_new m (fragment_index f)))"
  by (auto simp: accumulate_def Let_def update_conv' entry_or_new_def split: option.splits)

lemma distinct_accumulate:
  "distinct (map fst m) \<Longrightarrow> distinct (map fst (accumulate f m))"
  by (auto simp: accumulate_def Let_def distinct_update split: option.splits)

lemma keys_accumulate:
  "fst ` set (accumulate f m) = insert (fragment_index f) (fst ` set m)"
  by (auto simp: accumulate_def Let_def dom_update split: option.splits dest: map_of_SomeD
      simp: rev_image_eqI)

lemma distinct_fold_accumulate:
  "distinct (map fst m) \<Longrightarrow> distinct (map fst (fold accumulate fs m))"
  by (induction fs arbitrary: m) (simp_all add: distinct_accumulate)

lemma keys_fold_accumulate:
  "fst ` set (fold accumulate fs m) = fst ` set m \<union> fragment_index ` set fs"
  by (induction fs arbitrary: m) (auto simp: keys_accumulate)

lemma merge_fragment_fields:
  "call_id (merge_fragment f c) = (if js_truthy (frag_id f) then frag_id f else call_id c)"
  "call_name (merge_fragment f c)
     = (if js_truthy (frag_name f) then frag_name f else call_name c)"
  "arguments (merge_fragment f c) = arguments c @ argument_text f"
  by (simp_all add: merge_fragment_def Let_def argument_text_def)

lemma map_of_fold_accumulate:
  "map_of (fold accumulate fs m) i =
     (if i \<in> fragment_index ` set fs
      then Some (fold merge_fragment (fragments_at i fs) (entry_or_new m i))
      else map_of m i)"
proof (induction fs arbitrary: m)
  case Nil
  then show ?case by simp
next
  case (Cons f fs)
  let ?m = "accumulate f m"
  have step: "map_of ?m i = (if i = fragment_index f
      then Some (merge_fragment f (entry_or_new m i)) else map_of m i)"
    by (simp add: map_of_accumulate)
  have rest: "i \<notin> fragment_index ` set fs \<Longrightarrow> fragments_at i fs = []"
    by (auto simp: fragments_at_def filter_empty_conv)
  show ?case
  proof (cases "i = fragment_index f")
    case True
    then have e: "entry_or_new ?m i = merge_fragment f (entry_or_new m i)"
      using step by (simp add: entry_or_new_def)
    from True show ?thesis
      using Cons.IH [of ?m] e rest step by (auto simp: fragments_at_def)
  next
    case False
    then have e: "entry_or_new ?m i = entry_or_new m i"
      using step by (simp add: entry_or_new_def)
    from False show ?thesis
      using Cons.IH [of ?m] e step by (auto simp: fragments_at_def)
  qed
qed

lemma latest_snoc:
  "latest (vs @ [v]) = (if js_truthy v then v else latest vs)"
  by (simp add: latest_def)

lemma latest_none: "\<not> list_ex js_truthy vs \<Longrightarrow> latest vs = JNull"
  by (simp add: latest_def filter_empty_conv list_ex_iff)

lemma fold_merge_fragment_fields:
  "call_id (fold merge_fragment fs c)
     = (if list_ex js_truthy (map frag_id fs) then latest (map frag_id fs) else call_id c)"
  "call_name (fold merge_fragment fs c)
     = (if list_ex js_truthy (map frag_name fs) then latest (map frag_name fs) else call_name c)"
  "arguments (fold merge_fragment fs c) = arguments c @ concat (map argument_text fs)"
  by (induction fs arbitrary: c rule: rev_induct)
     (simp_all add: merge_fragment_fields latest_snoc)

lemma fold_merge_new_call:
  "fold merge_fragment (fragments_at i fs) new_call = reassembled i fs"
  by (rule tool_call.equality)
     (simp_all add: fold_merge_fragment_fields reassembled_def new_call_def latest_none)

lemma snd_eq_map_of:
  "distinct (map fst xs) \<Longrightarrow> map snd xs = map (\<lambda>p. entry_or_new xs (fst p)) xs"
  by (auto simp: entry_or_new_def)

lemma sortedCalls_by_key:
  assumes "distinct (map fst m)"
  shows "sortedCalls m = map (entry_or_new m) (sort (map fst m))"
proof -
  let ?s = "sort_key fst m"
  have d: "distinct (map fst ?s)"
    using assms by (metis distinct_map distinct_sort set_sort)
  have "map_of ?s = map_of m"
    using assms d by (simp add: map_of_inject_set)
  then have e: "entry_or_new ?s = entry_or_new m"
    by (auto simp: entry_or_new_def fun_eq_iff)
  have k: "map fst ?s = sort (map fst m)"
    by (rule sorted_distinct_set_unique) (use d assms in \<open>auto simp: distinct_map\<close>)
  have "sortedCalls m = map (\<lambda>p. entry_or_new ?s (fst p)) ?s"
    unfolding sortedCalls_def using d by (rule snd_eq_map_of)
  also have "\<dots> = map (entry_or_new m) (map fst ?s)"
    by (simp add: e)
  finally show ?thesis by (simp add: k)
qed

lemma sort_keys_fold_accumulate:
  "sort (map fst (fold accumulate fs [])) = batch_indices fs"
  unfolding batch_indices_def
proof (rule sorted_distinct_set_unique)
  show "distinct (sort (map fst (fold accumulate fs [])))"
    using distinct_fold_accumulate [of "[]" fs] by simp
  show "set (sort (map fst (fold accumulate fs []))) = set (sort (remdups (map fragment_index fs)))"
    using keys_fold_accumulate [of fs "[]"] by simp
qed simp_all

lemma feed_fragments:
  "feed p (map ToolCall fs) = p\<lparr>toolCallsInProgress := fold accumulate fs (toolCallsInProgress p)\<rparr>"
  by (induction fs arbitrary: p) (simp_all add: feed_def)

lemma feed_append: "feed p (rs @ rs') = feed (feed p rs) rs'"
  by (simp add: feed_def)

lemma batch_closed_form:
  assumes "r \<in> set flush_reasons" and "toolCallsInProgress p = []"
  shows "feed p (map ToolCall fs @ [FinishMetadata (Some r) :: 'q wire_record]) =
     \<lparr>finalizedToolCalls
        = finalizedToolCalls p @ map (\<lambda>i. reassembled i fs) (batch_indices fs),
      toolCallsInProgress = []\<rparr>"
proof -
  let ?m = "fold accumulate fs []"
  have d: "distinct (map fst ?m)"
    using distinct_fold_accumulate [of "[]" fs] by simp
  have "i \<in> set (batch_indices fs) \<Longrightarrow> entry_or_new ?m i = reassembled i fs" for i
    using map_of_fold_accumulate [of fs "[]" i]
    by (simp add: batch_indices_def entry_or_new_def fold_merge_new_call [symmetric])
  then have "map (entry_or_new ?m) (batch_indices fs)
      = map (\<lambda>i. reassembled i fs) (batch_indices fs)"
    by simp
  then have s: "sortedCalls ?m = map (\<lambda>i. reassembled i fs) (batch_indices fs)"
    by (simp add: sortedCalls_by_key [OF d] sort_keys_fold_accumulate)
  have "feed p (map ToolCall fs @ [FinishMetadata (Some r) :: 'q wire_record])
      = fst (parseRecord (p\<lparr>toolCallsInProgress := ?m\<rparr>) (FinishMetadata (Some r)))"
    using assms(2) by (simp add: feed_append feed_fragments) (simp add: feed_def)
  then have "feed p (map ToolCall fs @ [FinishMetadata (Some r) :: 'q wire_record])
      = p\<lparr>finalizedToolCalls
            := finalizedToolCalls p @ map (\<lambda>i. reassembled i fs) (batch_indices fs),
          toolCallsInProgress := []\<rparr>"
    using assms(1) s by simp
  then show ?thesis
    by (cases p) simp
qed

section \<open>Fragment reassembly\<close>

text \<open>
  C1, as amended. In a batch that starts from an empty accumulator, the accumulated call of
  every index that occurs has the id and the name of the latest fragment of that index that
  carries a truthy one (\<open>null\<close> when none does; a fragment that carries none leaves them
  as they are), and its argument string is the concatenation, in arrival order, of the
  argument texts of the batch's fragments of that index, the argument text of a fragment
  whose content is a string being that string; the flush puts exactly this call into the
  finalized list. So a call whose arguments arrive in N fragments is finalized with the
  unsplit argument string.
\<close>

theorem fragment_reassembly:
  assumes "toolCallsInProgress p = []"
    and "i \<in> fragment_index ` set fs"
    and "r \<in> set flush_reasons"
  shows "map_of (toolCallsInProgress (feed p (map ToolCall fs :: 'q wire_record list))) i = Some (reassembled i fs)
    \<and> reassembled i fs
        \<in> set (finalizedToolCalls (feed p (map ToolCall fs @ [FinishMetadata (Some r) :: 'q wire_record])))
    \<and> call_id (reassembled i fs) = latest (map frag_id (fragments_at i fs))
    \<and> call_name (reassembled i fs) = latest (map frag_name (fragments_at i fs))
    \<and> arguments (reassembled i fs) = concat (map argument_text (fragments_at i fs))
    \<and> (\<not> js_truthy (frag_id f) \<longrightarrow> call_id (merge_fragment f c) = call_id c)
    \<and> (\<not> js_truthy (frag_name f) \<longrightarrow> call_name (merge_fragment f c) = call_name c)
    \<and> arguments (merge_fragment f c) = arguments c @ argument_text f
    \<and> (\<forall>t. frag_content f = JString t \<longrightarrow> argument_text f = t)"
proof -
  have "map_of (fold accumulate fs []) i = Some (reassembled i fs)"
    using assms(2) map_of_fold_accumulate [of fs "[]" i]
    by (simp add: entry_or_new_def fold_merge_new_call)
  then have acc: "map_of (toolCallsInProgress (feed p (map ToolCall fs :: 'q wire_record list))) i
      = Some (reassembled i fs)"
    using assms(1) by (simp add: feed_fragments)
  have "i \<in> set (batch_indices fs)"
    using assms(2) by (simp add: batch_indices_def)
  then have fin: "reassembled i fs
      \<in> set (finalizedToolCalls (feed p (map ToolCall fs @ [FinishMetadata (Some r) :: 'q wire_record])))"
    by (simp add: batch_closed_form [OF assms(3) assms(1), of fs])
  have str: "\<forall>t. frag_content f = JString t \<longrightarrow> argument_text f = t"
    by (simp add: argument_text_def)
  show ?thesis
    using acc fin str by (simp add: reassembled_def merge_fragment_fields)
qed

theorem fragment_reassembly_witness:
  \<open>toolCallsInProgress new_SSEParser = [] \<and> 0 \<in> fragment_index ` set weather_fragments
   \<and> ''tool_calls'' \<in> set flush_reasons
   \<and> map_of (toolCallsInProgress
         (feed new_SSEParser (map ToolCall weather_fragments :: unit wire_record list))) 0
       = Some \<lparr>call_id = JString ''call_1'', call_name = JString ''get_weather'',
               arguments = ''{"city":"Paris"}''\<rparr>
   \<and> \<lparr>call_id = JString ''call_1'', call_name = JString ''get_weather'',
        arguments = ''{"city":"Paris"}''\<rparr>
       \<in> set (finalizedToolCalls (feed new_SSEParser
            (map ToolCall weather_fragments
               @ [FinishMetadata (Some ''tool_calls'') :: unit wire_record])))
   \<and> \<not> js_truthy (frag_id (frag None [] [] ''"Paris"}''))
   \<and> call_id (merge_fragment (frag None [] [] ''"Paris"}'') new_call) = call_id new_call
   \<and> frag_content (frag None [] [] ''"Paris"}'') = JString ''"Paris"}''
   \<and> argument_text (frag None [] [] ''"Paris"}'') = ''"Paris"}''\<close>
proof -
  have h1: "toolCallsInProgress new_SSEParser = []"
    by (simp add: new_SSEParser_def)
  have h2: "0 \<in> fragment_index ` set weather_fragments"
    by (simp add: weather_fragments_def frag_def fragment_index_def)
  have h3: "''tool_calls'' \<in> set flush_reasons"
    by (simp add: flush_reasons_def)
  have h4: \<open>\<not> js_truthy (frag_id (frag None [] [] ''"Paris"}''))\<close>
    by (simp add: frag_def)
  have h5: \<open>frag_content (frag None [] [] ''"Paris"}'') = JString ''"Paris"}''\<close>
    by (simp add: frag_def)
  have e: \<open>reassembled 0 weather_fragments
      = \<lparr>call_id = JString ''call_1'', call_name = JString ''get_weather'',
         arguments = ''{"city":"Paris"}''\<rparr>\<close>
    by (simp add: reassembled_def fragments_at_def weather_fragments_def frag_def
        fragment_index_def latest_def argument_text_def)
  note t = fragment_reassembly [OF h1 h2 h3,
      where f = \<open>frag None [] [] ''"Paris"}''\<close> and c = new_call, unfolded e]
  from t have c1: \<open>map_of (toolCallsInProgress
         (feed new_SSEParser (map ToolCall weather_fragments :: unit wire_record list))) 0
       = Some \<lparr>call_id = JString ''call_1'', call_name = JString ''get_weather'',
               arguments = ''{"city":"Paris"}''\<rparr>\<close>
    by (rule conjunct1)
  from t have c2: \<open>\<lparr>call_id = JString ''call_1'', call_name = JString ''get_weather'',
        arguments = ''{"city":"Paris"}''\<rparr>
       \<in> set (finalizedToolCalls (feed new_SSEParser
            (map ToolCall weather_fragments
               @ [FinishMetadata (Some ''tool_calls'') :: unit wire_record])))\<close>
    by (rule conjunct2 [THEN conjunct1])
  note rest = t [THEN conjunct2, THEN conjunct2, THEN conjunct2, THEN conjunct2, THEN conjunct2]
  have c3: \<open>call_id (merge_fragment (frag None [] [] ''"Paris"}'') new_call) = call_id new_call\<close>
    using rest [THEN conjunct1] h4 by (rule mp)
  have c4: \<open>argument_text (frag None [] [] ''"Paris"}'') = ''"Paris"}''\<close>
    using rest [THEN conjunct2, THEN conjunct2, THEN conjunct2, THEN spec] h5 by (rule mp)
  show ?thesis
    by (intro conjI h1 h2 h3 c1 c2 h4 c3 h5 c4)
qed

text \<open>
  The claim as stated fails where a later fragment of the same index carries another id:
  the accumulated id is the later one, not the one of the first fragment that carried an
  id.
\<close>

theorem id_overwritten_counterexample:
  "map call_id (finalizedToolCalls (feed new_SSEParser
      [ToolCall (frag None ''call_a'' ''f'' ''{''), ToolCall (frag None ''call_b'' [] ''}''),
       FinishMetadata (Some ''stop'') :: unit wire_record])) = [JString ''call_b'']
   \<and> first_carried (map frag_id [frag None ''call_a'' ''f'' ''{'', frag None ''call_b'' [] ''}''])
       = JString ''call_a''"
  by (simp add: feed_def new_SSEParser_def frag_def accumulate_def Let_def fragment_index_def
      new_call_def merge_fragment_def flush_reasons_def sortedCalls_def
      first_carried_def)

section \<open>Flushing in index order\<close>

lemma index_occurs_iff: "i \<in> fragment_index ` set gs \<longleftrightarrow> fragments_at i gs \<noteq> []"
  by (auto simp: fragments_at_def filter_empty_conv)

lemma fragments_at_determine_indices:
  assumes "\<And>i. fragments_at i fs' = fragments_at i fs"
  shows "batch_indices fs' = batch_indices fs"
proof -
  have e: "fragment_index ` set fs' = fragment_index ` set fs"
  proof (rule set_eqI)
    fix i
    show "i \<in> fragment_index ` set fs' \<longleftrightarrow> i \<in> fragment_index ` set fs"
      by (simp only: index_occurs_iff assms)
  qed
  show ?thesis
    unfolding batch_indices_def
  proof (rule sorted_distinct_set_unique)
    show "set (sort (remdups (map fragment_index fs')))
        = set (sort (remdups (map fragment_index fs)))"
      by (simp add: e)
  qed simp_all
qed

lemma batch_arrival_order:
  assumes "r \<in> set flush_reasons" and "toolCallsInProgress p = []"
    and s: "\<forall>i. fragments_at i fs' = fragments_at i fs"
  shows "feed p (map ToolCall fs' @ [FinishMetadata (Some r) :: 'q wire_record])
      = feed p (map ToolCall fs @ [FinishMetadata (Some r)])"
proof -
  have "batch_indices fs' = batch_indices fs"
    using s by (intro fragments_at_determine_indices) simp
  moreover have "reassembled i fs' = reassembled i fs" for i
    using s by (simp add: reassembled_def)
  ultimately show ?thesis
    by (simp add: batch_closed_form [OF assms(1,2)])
qed

lemma batch_of_three:
  assumes "r \<in> set flush_reasons" and e: "toolCallsInProgress p = []"
    and i: "fragment_index f2 = 2" "fragment_index f0 = 0" "fragment_index f1 = 1"
  shows "finalizedToolCalls
      (feed p (map ToolCall [f2, f0, f1] @ [FinishMetadata (Some r) :: 'q wire_record]))
    = finalizedToolCalls p
        @ [merge_fragment f0 new_call, merge_fragment f1 new_call, merge_fragment f2 new_call]"
proof -
  have k: "batch_indices [f2, f0, f1] = [0, 1, 2]"
    using i by (simp add: batch_indices_def)
  have m: "fold merge_fragment (fragments_at 0 [f2, f0, f1]) new_call = merge_fragment f0 new_call"
    "fold merge_fragment (fragments_at 1 [f2, f0, f1]) new_call = merge_fragment f1 new_call"
    "fold merge_fragment (fragments_at 2 [f2, f0, f1]) new_call = merge_fragment f2 new_call"
    using i by (simp_all add: fragments_at_def)
  show ?thesis
    using k m
    by (simp add: batch_closed_form [OF assms(1) e, of "[f2, f0, f1]", simplified]
        fold_merge_new_call [symmetric])
qed

text \<open>
  C2. A finish record whose reason is \<open>tool_call\<close>, \<open>tool_calls\<close> or \<open>stop\<close> appends the
  accumulated calls to the finalized list in ascending index order and empties the
  accumulator. For a batch that starts from an empty accumulator the finalized calls are
  the batch's calls by ascending index, so two arrival orders with the same fragments per
  index finalize to the same list; fragments of indices 2, 0, 1 arriving in this order
  finalize as the calls of 0, 1, 2.
\<close>

theorem flush_sorted_by_index:
  assumes "r \<in> set flush_reasons"
  shows "parseRecord p (FinishMetadata (Some r) :: 'q wire_record)
      = (\<lparr>finalizedToolCalls = finalizedToolCalls p @ sortedCalls (toolCallsInProgress p),
          toolCallsInProgress = []\<rparr>, None)
    \<and> sortedCalls (toolCallsInProgress p) = map snd (sort_key fst (toolCallsInProgress p))
    \<and> sorted (map fst (sort_key fst (toolCallsInProgress p)))
    \<and> (toolCallsInProgress p = [] \<longrightarrow>
          feed p (map ToolCall fs @ [FinishMetadata (Some r) :: 'q wire_record])
            = \<lparr>finalizedToolCalls
                 = finalizedToolCalls p @ map (\<lambda>i. reassembled i fs) (batch_indices fs),
               toolCallsInProgress = []\<rparr>
          \<and> sorted (batch_indices fs) \<and> distinct (batch_indices fs)
          \<and> set (batch_indices fs) = fragment_index ` set fs)
    \<and> (toolCallsInProgress p = [] \<and> (\<forall>i. fragments_at i fs' = fragments_at i fs) \<longrightarrow>
          feed p (map ToolCall fs' @ [FinishMetadata (Some r) :: 'q wire_record])
            = feed p (map ToolCall fs @ [FinishMetadata (Some r) :: 'q wire_record]))
    \<and> (toolCallsInProgress p = [] \<and> fragment_index f2 = 2 \<and> fragment_index f0 = 0
          \<and> fragment_index f1 = 1 \<longrightarrow>
          finalizedToolCalls (feed p (map ToolCall [f2, f0, f1] @ [FinishMetadata (Some r) :: 'q wire_record]))
            = finalizedToolCalls p
                @ [merge_fragment f0 new_call, merge_fragment f1 new_call,
                   merge_fragment f2 new_call])"
proof -
  have one: "parseRecord p (FinishMetadata (Some r) :: 'q wire_record)
      = (\<lparr>finalizedToolCalls = finalizedToolCalls p @ sortedCalls (toolCallsInProgress p),
          toolCallsInProgress = []\<rparr>, None)"
    using assms by simp
  show ?thesis
    apply (intro conjI impI)
            apply (rule one)
           apply (simp add: sortedCalls_def)
          apply simp
         apply (erule batch_closed_form [OF assms])
        apply (simp_all add: batch_indices_def)[3]
     apply (erule conjE, erule (1) batch_arrival_order [OF assms])
    apply (elim conjE, erule (3) batch_of_three [OF assms])
    done
qed

theorem flush_sorted_by_index_witness:
  "''tool_calls'' \<in> set flush_reasons \<and> toolCallsInProgress new_SSEParser = []
   \<and> (\<forall>i. fragments_at i fragments_0_1_2 = fragments_at i fragments_2_0_1)
   \<and> finalizedToolCalls (feed new_SSEParser
         (map ToolCall fragments_2_0_1 @ [FinishMetadata (Some ''tool_calls'') :: unit wire_record]))
       = [\<lparr>call_id = JString ''call_a'', call_name = JString ''f'', arguments = ''0''\<rparr>,
          \<lparr>call_id = JString ''call_b'', call_name = JString ''g'', arguments = ''1''\<rparr>,
          \<lparr>call_id = JString ''call_c'', call_name = JString ''h'', arguments = ''2''\<rparr>]
   \<and> feed new_SSEParser
         (map ToolCall fragments_0_1_2 @ [FinishMetadata (Some ''tool_calls'') :: unit wire_record])
       = feed new_SSEParser (map ToolCall fragments_2_0_1 @ [FinishMetadata (Some ''tool_calls'') :: unit wire_record])"
proof -
  have h: "''tool_calls'' \<in> set flush_reasons"
    by (simp add: flush_reasons_def)
  have e: "toolCallsInProgress new_SSEParser = []"
    by (simp add: new_SSEParser_def)
  have s: "\<forall>i. fragments_at i fragments_0_1_2 = fragments_at i fragments_2_0_1"
    by (simp add: fragments_at_def fragments_0_1_2_def fragments_2_0_1_def frag_def
        fragment_index_def)
  have i: "fragment_index (frag (Some 2) ''call_c'' ''h'' ''2'') = 2"
    "fragment_index (frag (Some 0) ''call_a'' ''f'' ''0'') = 0"
    "fragment_index (frag (Some 1) ''call_b'' ''g'' ''1'') = 1"
    by (simp_all add: frag_def fragment_index_def)
  note t = flush_sorted_by_index [OF h, where p = new_SSEParser and fs = fragments_2_0_1
      and fs' = fragments_0_1_2 and ?'q = unit
      and ?f2.0 = "frag (Some 2) ''call_c'' ''h'' ''2''"
      and ?f0.0 = "frag (Some 0) ''call_a'' ''f'' ''0''"
      and ?f1.0 = "frag (Some 1) ''call_b'' ''g'' ''1''"]
  have a2: "toolCallsInProgress new_SSEParser = []
      \<and> (\<forall>i. fragments_at i fragments_0_1_2 = fragments_at i fragments_2_0_1)"
    by (intro conjI e s)
  have a3: "toolCallsInProgress new_SSEParser = []
      \<and> fragment_index (frag (Some 2) ''call_c'' ''h'' ''2'') = 2
      \<and> fragment_index (frag (Some 0) ''call_a'' ''f'' ''0'') = 0
      \<and> fragment_index (frag (Some 1) ''call_b'' ''g'' ''1'') = 1"
    by (intro conjI e i)
  have c1: "finalizedToolCalls (feed new_SSEParser
         (map ToolCall fragments_2_0_1 @ [FinishMetadata (Some ''tool_calls'') :: unit wire_record]))
       = [\<lparr>call_id = JString ''call_a'', call_name = JString ''f'', arguments = ''0''\<rparr>,
          \<lparr>call_id = JString ''call_b'', call_name = JString ''g'', arguments = ''1''\<rparr>,
          \<lparr>call_id = JString ''call_c'', call_name = JString ''h'', arguments = ''2''\<rparr>]"
    unfolding fragments_2_0_1_def
      t [THEN conjunct2, THEN conjunct2, THEN conjunct2, THEN conjunct2, THEN conjunct2,
         THEN mp, OF a3]
    by (simp add: new_SSEParser_def merge_fragment_def frag_def new_call_def)
  have c2: "feed new_SSEParser
         (map ToolCall fragments_0_1_2 @ [FinishMetadata (Some ''tool_calls'') :: unit wire_record])
       = feed new_SSEParser (map ToolCall fragments_2_0_1 @ [FinishMetadata (Some ''tool_calls'') :: unit wire_record])"
    using t [THEN conjunct2, THEN conjunct2, THEN conjunct2, THEN conjunct2, THEN conjunct1] a2
    by (rule mp)
  show ?thesis
    by (intro conjI h e s c1 c2)
qed

section \<open>Fragments without an index\<close>

lemma parseLine_variants_agree:
  "decode (drop 6 line) \<noteq> None \<Longrightarrow> parseLine decode q line = parseLine_v2_11 decode q line"
  by (auto simp: parseLine_def parseLine_v2_11_def Let_def)

lemma merge_fragment_index_irrelevant:
  "merge_fragment (f\<lparr>parallelToolIndex := x\<rparr>) c = merge_fragment f c"
  by (simp add: merge_fragment_def)

lemma accumulate_indexless:
  "parallelToolIndex f = None \<Longrightarrow> accumulate f m = accumulate (f\<lparr>parallelToolIndex := Some 0\<rparr>) m"
  by (simp add: accumulate_def fragment_index_def merge_fragment_index_irrelevant Let_def
      split: option.splits)

lemma sorted_nonneg_hd:
  assumes "sorted (xs :: int list)" and "0 \<in> set xs" and "\<forall>x\<in>set xs. 0 \<le> x"
  shows "xs = 0 # tl xs"
proof (cases xs)
  case Nil
  with assms(2) show ?thesis by simp
next
  case (Cons x ys)
  with assms have "x \<le> 0" and "0 \<le> x"
    by auto
  with Cons show ?thesis by simp
qed

text \<open>
  C10, as amended. In both parser variants a fragment without \<open>parallelToolIndex\<close> is
  handled as the same fragment with index 0. In a batch that starts from an empty
  accumulator, every such fragment is among the fragments of index 0, which together with
  the fragments of explicit index 0 reassemble to the one accumulated call at key 0; when
  no fragment of the batch has a negative index, that call is the first the flush
  finalizes.
\<close>

theorem indexless_fragment_is_index_zero:
  assumes "parallelToolIndex f = None"
    and "f \<in> set fs"
    and "toolCallsInProgress p = []"
    and "r \<in> set flush_reasons"
    and "\<forall>g\<in>set fs. 0 \<le> fragment_index g"
  shows "fragment_index f = 0
    \<and> accumulate f m = accumulate (f\<lparr>parallelToolIndex := Some 0\<rparr>) m
    \<and> (decode (drop 6 line) = Some (ToolCall f)
         \<longrightarrow> parseLine decode q line = parseLine_v2_11 decode q line)
    \<and> f \<in> set (fragments_at 0 fs)
    \<and> map_of (toolCallsInProgress (feed p (map ToolCall fs :: 'q wire_record list))) 0
        = Some (reassembled 0 fs)
    \<and> finalizedToolCalls (feed p (map ToolCall fs @ [FinishMetadata (Some r) :: 'q wire_record]))
        = finalizedToolCalls p @ reassembled 0 fs # map (\<lambda>i. reassembled i fs) (tl (batch_indices fs))"
proof -
  have z: "fragment_index f = 0"
    using assms(1) by (simp add: fragment_index_def)
  have mem: "0 \<in> fragment_index ` set fs"
    using assms(2) z by force
  have acc: "map_of (toolCallsInProgress (feed p (map ToolCall fs :: 'q wire_record list))) 0
      = Some (reassembled 0 fs)"
    using fragment_reassembly [OF assms(3) mem assms(4)] by (rule conjunct1)
  have "batch_indices fs = 0 # tl (batch_indices fs)"
    using mem assms(5) by (intro sorted_nonneg_hd) (simp_all add: batch_indices_def)
  then have "map (\<lambda>i. reassembled i fs) (batch_indices fs)
      = reassembled 0 fs # map (\<lambda>i. reassembled i fs) (tl (batch_indices fs))"
    by (metis list.simps(9))
  then have fin: "finalizedToolCalls
        (feed p (map ToolCall fs @ [FinishMetadata (Some r) :: 'q wire_record]))
      = finalizedToolCalls p @ reassembled 0 fs # map (\<lambda>i. reassembled i fs) (tl (batch_indices fs))"
    by (simp add: batch_closed_form [OF assms(4) assms(3)])
  have at: "f \<in> set (fragments_at 0 fs)"
    using assms(2) z by (simp add: fragments_at_def)
  show ?thesis
    by (intro conjI impI z accumulate_indexless [OF assms(1)] at acc fin)
       (simp add: parseLine_variants_agree)
qed

theorem indexless_fragment_is_index_zero_witness:
  \<open>parallelToolIndex (frag None [] [] ''"Paris"}'') = None
   \<and> frag None [] [] ''"Paris"}'' \<in> set weather_fragments
   \<and> toolCallsInProgress new_SSEParser = [] \<and> ''tool_calls'' \<in> set flush_reasons
   \<and> list_all (\<lambda>g. 0 \<le> fragment_index g) weather_fragments
   \<and> fragment_index (frag None [] [] ''"Paris"}'') = 0
   \<and> finalizedToolCalls (feed new_SSEParser
         (map ToolCall weather_fragments
            @ [FinishMetadata (Some ''tool_calls'') :: unit wire_record]))
       = [\<lparr>call_id = JString ''call_1'', call_name = JString ''get_weather'',
           arguments = ''{"city":"Paris"}''\<rparr>]\<close>
proof -
  have h1: \<open>parallelToolIndex (frag None [] [] ''"Paris"}'') = None\<close>
    by (simp add: frag_def)
  have h2: \<open>frag None [] [] ''"Paris"}'' \<in> set weather_fragments\<close>
    by (simp add: weather_fragments_def)
  have h3: "toolCallsInProgress new_SSEParser = []"
    by (simp add: new_SSEParser_def)
  have h4: "''tool_calls'' \<in> set flush_reasons"
    by (simp add: flush_reasons_def)
  have h5: "\<forall>g\<in>set weather_fragments. 0 \<le> fragment_index g"
    by (simp add: weather_fragments_def frag_def fragment_index_def)
  have e: \<open>reassembled 0 weather_fragments
      = \<lparr>call_id = JString ''call_1'', call_name = JString ''get_weather'',
         arguments = ''{"city":"Paris"}''\<rparr>\<close>
    by (simp add: reassembled_def fragments_at_def weather_fragments_def frag_def
        fragment_index_def latest_def argument_text_def)
  have b: "tl (batch_indices weather_fragments) = []"
    by (simp add: batch_indices_def weather_fragments_def frag_def fragment_index_def)
  note t = indexless_fragment_is_index_zero [OF h1 h2 h3 h4 h5, where ?'q = unit]
  have c1: \<open>fragment_index (frag None [] [] ''"Paris"}'') = 0\<close>
    by (rule t [THEN conjunct1])
  have c2: \<open>finalizedToolCalls (feed new_SSEParser
         (map ToolCall weather_fragments
            @ [FinishMetadata (Some ''tool_calls'') :: unit wire_record]))
       = [\<lparr>call_id = JString ''call_1'', call_name = JString ''get_weather'',
           arguments = ''{"city":"Paris"}''\<rparr>]\<close>
    unfolding t [THEN conjunct2, THEN conjunct2, THEN conjunct2, THEN conjunct2, THEN conjunct2]
      e b
    by (simp add: new_SSEParser_def)
  have h5': "list_all (\<lambda>g. 0 \<le> fragment_index g) weather_fragments"
    using h5 by (simp add: list_all_iff)
  show ?thesis
    by (intro conjI h1 h2 h3 h4 h5' c1 c2)
qed

text \<open>
  The claim as stated fails where another fragment carries a negative index: the call
  built from the fragment without an index is finalized second, after the call of index
  \<open>-1\<close>.
\<close>

theorem negative_index_counterexample:
  "map call_id (finalizedToolCalls (feed new_SSEParser
      [ToolCall (frag (Some (- 1)) ''call_n'' ''g'' ''1''), ToolCall (frag None ''call_z'' ''f'' ''0''),
       FinishMetadata (Some ''tool_calls'') :: unit wire_record]))
     = [JString ''call_n'', JString ''call_z'']"
  by (simp add: feed_def new_SSEParser_def frag_def accumulate_def Let_def fragment_index_def
      new_call_def merge_fragment_def flush_reasons_def sortedCalls_def)

section \<open>The calls surfaced to the caller\<close>

text \<open>
  C9. The parser creates a call as \<open>{ id: null, name: null, arguments: '' }\<close> and fills it
  from the fragments; neither it nor \<open>ChatSession.stream\<close> looks at a call again before it is
  surfaced. On a response body whose only fragment carries an opening brace as content and
  neither an id nor a name, followed by the finish record, \<open>stream\<close> yields, with either
  parser variant, one \<open>tool_calls\<close> event whose call has the id \<open>null\<close>, the name \<open>null\<close>
  and the arguments \<open>{\<close>, which is not a complete JSON text. The declaration of \<open>ToolCall\<close>
  gives \<open>id\<close> and \<open>name\<close> as strings and \<open>arguments\<close> as a JSON string.
\<close>

theorem surfaced_call_without_id:
  "stream_response (parseLine example_decode) example_chunks
     = ([ToolCalls [\<lparr>call_id = JNull, call_name = JNull, arguments = ''{''\<rparr>]], None)
   \<and> stream_response (parseLine_v2_11 example_decode) example_chunks
     = ([ToolCalls [\<lparr>call_id = JNull, call_name = JNull, arguments = ''{''\<rparr>]], None)"
  by (simp add: stream_response_def example_chunks_def parseLine_def parseLine_v2_11_def
      startsWith_def trim_def isWhiteSpace_def example_decode_def Let_def accumulate_def
      fragment_index_def new_call_def merge_fragment_def flush_reasons_def sortedCalls_def
      new_SSEParser_def getFinalResult_def)

section \<open>Capability filtering\<close>


lemma parameter_entries_Undefined:
  "parameter_entries Undefined p em ps = ([], Inr (concat (map pushed_entries ps)))"
  by (induction ps) (auto simp: Let_def pushed_entries_def)








section \<open>Profiles outside the registry\<close>

text \<open>
  For a profile name that is neither in the registry nor a property of \<open>Object.prototype\<close>,
  nothing is filtered: the tools entry is there whenever there are tools, every parameter
  has its two entries, and no warning is emitted.
\<close>

lemma unregistered_profile_no_filtering:
  assumes "get_property modelProfiles p = Undefined"
  shows "buildParametersArray ps ts p em
     = ([], Inr (let data = (if ts = [] then []
                             else [ParamDef (ptype (LLMParameters TOOLS)) (fqdn (LLMParameters TOOLS)),
                                   ToolsValue ts])
                          @ concat (map pushed_entries ps)
                 in if data = [] then None else Some data))"
  by (simp add: buildParametersArray_def assms tools_entries_def parameter_entries_Undefined Let_def)

text \<open>
  C5 fails on the code for the profile names that \<open>Object.prototype\<close> defines. The profile
  \<open>constructor\<close> is not in the registry, yet \<open>modelProfiles['constructor']\<close> is a function: it
  is truthy and has no \<open>params\<close>, so with a tool configured \<open>modelProfile.params.has\<close> raises a
  \<open>TypeError\<close>, and no request is sent.
\<close>

theorem inherited_profile_raises:
  "map_of modelProfiles (profile constructor_session) = None
   \<and> tools constructor_session = [get_weather]
   \<and> request_body constructor_session [user_message ''hi''] = ([], Inl TypeError)
   \<and> stream (parseLine example_decode) example_fetch constructor_session new_world
        [user_message ''hi''] = (new_world, Inl TypeError)"
  by (simp add: constructor_session_def gemini_session_def modelProfiles_def request_body_def
      buildRequestBody_def buildParametersArray_def get_property_def
      Object_prototype_properties_def tools_entries_def Let_def new_array_def stream_def
      new_world_def)

section \<open>The system message\<close>

lemma buildRequestBody_heap:
  "\<exists>ws res. buildRequestBody s h r =
     (ws,
      \<lparr>arrays = (arrays h)(allocated h :=
           (if truthy (systemMessage s) \<and> \<not> list_ex is_system_message (arrays h r)
            then system_message (case systemMessage s of None \<Rightarrow> [] | Some c \<Rightarrow> c) # arrays h r
            else arrays h r)),
        allocated = Suc (allocated h)\<rparr>,
      res)
    \<and> (\<forall>rd. res = Inr rd \<longrightarrow> chat_messages rd = allocated h)"
  by (cases h)
     (auto simp: buildRequestBody_def Let_def new_array_def unshift_def split: prod.splits sum.splits)

text \<open>
  C8, as amended. Request assembly copies the caller's array and leaves it as it was. When
  a non-empty system message is configured and the history holds no system message at any
  position, the request's list is the history with the system message put in front; when
  the history holds a system message anywhere, in particular at its start, or the
  configured message is empty or absent, the request's list is the history.
\<close>

theorem system_message_prepended:
  assumes "r < allocated h"
    and "buildRequestBody s h r = (ws, h', res)"
  shows "arrays h' r = arrays h r
    \<and> (\<forall>rd. res = Inr rd \<longrightarrow>
          chat_messages rd \<noteq> r
        \<and> (truthy (systemMessage s) \<and> \<not> list_ex is_system_message (arrays h r) \<longrightarrow>
             (\<exists>c. systemMessage s = Some c
                \<and> arrays h' (chat_messages rd) = system_message c # arrays h r))
        \<and> (list_ex is_system_message (arrays h r) \<longrightarrow>
             arrays h' (chat_messages rd) = arrays h r)
        \<and> ((\<exists>c rest. arrays h r = system_message c # rest) \<longrightarrow>
             arrays h' (chat_messages rd) = arrays h r)
        \<and> (\<not> truthy (systemMessage s) \<longrightarrow> arrays h' (chat_messages rd) = arrays h r))"
proof -
  from buildRequestBody_heap [of s h r] assms(2)
  have h': "h' = \<lparr>arrays = (arrays h)(allocated h :=
           (if truthy (systemMessage s) \<and> \<not> list_ex is_system_message (arrays h r)
            then system_message (case systemMessage s of None \<Rightarrow> [] | Some c \<Rightarrow> c) # arrays h r
            else arrays h r)),
        allocated = Suc (allocated h)\<rparr>"
    and rd: "\<forall>rd. res = Inr rd \<longrightarrow> chat_messages rd = allocated h"
    by auto
  have start: "list_ex is_system_message (arrays h r)"
    if "arrays h r = system_message c # rest" for c rest
    using that by simp
  show ?thesis
    using assms(1) rd start
    by (auto simp: h' truthy_def split: option.splits)
qed

theorem system_message_prepended_witness:
  "(1::nat) < allocated example_heap
   \<and> arrays (fst (snd (buildRequestBody gemini_session example_heap 1))) 1 = [user_message ''hi'']
   \<and> arrays (fst (snd (buildRequestBody gemini_session example_heap 1))) 2
       = [system_message ''Be brief.'', user_message ''hi'']"
proof -
  have a: "(1::nat) < allocated example_heap"
    by (simp add: example_heap_def)
  obtain ws h' res where b: "buildRequestBody gemini_session example_heap 1 = (ws, h', res)"
    by (cases "buildRequestBody gemini_session example_heap 1")
  have "snd (snd (buildRequestBody gemini_session example_heap 1))
      = Inr \<lparr>rd_profile = ''google-chat-gemini-flash-2.5'', chat_messages = 2,
             rd_parameters = Some (supported_entries_of_gemini)\<rparr>"
    by (simp add: buildRequestBody_def Let_def new_array_def example_heap_def
        buildParametersArray_def gemini_session_def get_property_def modelProfiles_def
        tools_entries_def GOOGLE_GEMINI_2_5_FLASH_def COMMON_TOOLS_def
        supported_entries_of_gemini_def)
  then have e: "res = Inr \<lparr>rd_profile = ''google-chat-gemini-flash-2.5'', chat_messages = 2,
             rd_parameters = Some (supported_entries_of_gemini)\<rparr>"
    unfolding b by simp
  note t = system_message_prepended [OF a b]
  have c: "list_ex is_system_message (arrays example_heap 1) = False"
    "truthy (systemMessage gemini_session)" "systemMessage gemini_session = Some ''Be brief.''"
    "arrays example_heap 1 = [user_message ''hi'']"
    by (simp_all add: example_heap_def gemini_session_def truthy_def)
  from t e c have "arrays h' 1 = [user_message ''hi'']"
    and "arrays h' 2 = [system_message ''Be brief.'', user_message ''hi'']"
    by auto
  then show ?thesis
    using a unfolding b by simp
qed

text \<open>
  The claim as stated fails on a history that holds a system message but does not start with
  one: nothing is put in front.
\<close>

theorem system_message_not_at_start_counterexample:
  "systemMessage unregistered_session = Some ''Be brief.''
   \<and> map_sum id req_messages
       (snd (request_body unregistered_session [user_message ''hi'', system_message ''Be long.'']))
     = Inr [user_message ''hi'', system_message ''Be long.'']"
  by (simp add: unregistered_session_def gemini_session_def request_body_def buildRequestBody_def
      buildParametersArray_def get_property_def modelProfiles_def Object_prototype_properties_def
      tools_entries_def Let_def new_array_def truthy_def unshift_def)

section \<open>One tool round-trip of step\<close>

lemma tool_chunks_events:
  "stream_response (parseLine example_decode) tool_chunks
     = ([ToolCalls [weather_call, time_call]], None)"
  "stream_response (parseLine_v2_11 example_decode) tool_chunks
     = ([ToolCalls [weather_call, time_call]], None)"
  by (simp_all add: stream_response_def tool_chunks_def parseLine_def parseLine_v2_11_def
      startsWith_def trim_def isWhiteSpace_def example_decode_def Let_def accumulate_def
      fragment_index_def new_call_def merge_fragment_def flush_reasons_def sortedCalls_def
      new_SSEParser_def getFinalResult_def weather_call_def time_call_def)


lemma JSON_stringify_encodable:
  "encodable stringify r
   \<Longrightarrow> \<exists>t. JSON_stringify stringify (resultValue r) = Inr t
         \<and> round_trip_entries stringify call r
             = [assistant_message_tool (call_id call) (call_name call) (arguments call),
                tool_message (call_id call) (call_name call) t]"
  by (auto simp: encodable_def JSON_stringify_def resultValue_def round_trip_entries_def
      split: option.splits sum.splits if_splits)

lemma JSON_stringify_not_encodable:
  "\<not> encodable stringify r \<Longrightarrow> \<exists>e. JSON_stringify stringify (resultValue r) = Inl e"
  by (auto simp: encodable_def JSON_stringify_def resultValue_def
      split: option.splits sum.splits if_splits)

lemma push_results_eq:
  "length results = length calls \<Longrightarrow> list_all (encodable stringify) results
   \<Longrightarrow> push_results stringify calls results fm
       = Inr (fm @ concat (map2 (round_trip_entries stringify) calls results))"
proof (induction stringify calls results fm rule: push_results.induct)
  case (3 stringify call calls r results finalMessages)
  from "3.prems" obtain t where t: "JSON_stringify stringify (resultValue r) = Inr t"
    and e: "round_trip_entries stringify call r
        = [assistant_message_tool (call_id call) (call_name call) (arguments call),
           tool_message (call_id call) (call_name call) t]"
    using JSON_stringify_encodable [of stringify r call] by auto
  from "3.IH" [OF t] "3.prems" show ?case
    by (simp add: t e)
qed simp_all

lemma push_results_abort:
  "length results = length calls \<Longrightarrow> \<not> list_all (encodable stringify) results
   \<Longrightarrow> \<exists>e. push_results stringify calls results fm = Inl e"
proof (induction stringify calls results fm rule: push_results.induct)
  case (3 stringify call calls r results finalMessages)
  show ?case
  proof (cases "encodable stringify r")
    case True
    then obtain t where t: "JSON_stringify stringify (resultValue r) = Inr t"
      using JSON_stringify_encodable [of stringify r call] by auto
    from "3.IH" [OF t] "3.prems" True show ?thesis
      by (simp add: t)
  next
    case False
    then show ?thesis
      using JSON_stringify_not_encodable [of stringify r] by auto
  qed
qed simp_all

lemma length_round_trip:
  "length results = length calls
   \<Longrightarrow> length (concat (map2 (round_trip_entries stringify) calls results)) = 2 * length calls"
  by (induction calls results rule: list_induct2') (simp_all add: round_trip_entries_def)

lemma step_begin_tool_request:
  assumes "step_begin parse fetch s w ms force = (w1, Inr (tool_request calls text fm))"
  shows "fm = ms \<and> calls \<noteq> []"
  using assms
  by (auto simp: step_begin_def Let_def split: prod.splits sum.splits if_splits)

lemma executeTools_length:
  "executeTools calls lib = Inr rs \<Longrightarrow> length rs = length calls"
  by (induction calls arbitrary: rs) (auto split: sum.splits)

lemma failed_results_encodable:
  "\<forall>r\<in>set results. \<not> success r \<Longrightarrow> list_all (encodable stringify) results"
  by (simp add: list_all_iff encodable_def)

lemma tools_entries_not_Inherited:
  "mp \<noteq> Inherited \<Longrightarrow> \<exists>data. tools_entries mp ts = Inr data"
  by (cases mp) (auto simp: tools_entries_def Let_def)

lemma parameter_entries_not_Inherited:
  fixes ps :: "(param_key \<times> 'a pvalue) list"
  shows "mp \<noteq> Inherited
    \<Longrightarrow> \<exists>(ws :: 'r emitted list) (data :: ('a, 'r) entry list).
          parameter_entries mp p em ps = (ws, Inr data)"
proof (induction ps)
  case Nil
  then show ?case by simp
next
  case (Cons kv ps)
  then obtain ws :: "'r emitted list" and data :: "('a, 'r) entry list"
    where "parameter_entries mp p em ps = (ws, Inr data)"
    by blast
  with Cons.prems show ?case
    by (cases kv; cases mp) (auto simp: Let_def)
qed

lemma request_body_ok:
  fixes s :: "('a, 'r) ChatSession"
  assumes "get_property modelProfiles (profile s) \<noteq> Inherited"
  shows "\<exists>ws requestBody. request_body s ms = (ws, Inr requestBody)"
proof -
  obtain data0 :: "('a, 'r) entry list"
    where t: "tools_entries (get_property modelProfiles (profile s)) (tools s) = Inr data0"
    using tools_entries_not_Inherited [OF assms] by blast
  obtain ws :: "'r emitted list" and data1 :: "('a, 'r) entry list"
    where p: "parameter_entries (get_property modelProfiles (profile s)) (profile s) True
        (parameters s) = (ws, Inr data1)"
    using parameter_entries_not_Inherited [OF assms] by blast
  show ?thesis
    by (simp add: request_body_def buildRequestBody_def buildParametersArray_def Let_def
        new_array_def t p)
qed

lemma gemini_profile_registered:
  "get_property modelProfiles (profile gemini_session) \<noteq> Inherited"
  by (simp add: get_property_def modelProfiles_def gemini_session_def)

lemma weather_results_executed:
  "executeTools [weather_call, time_call] (tools gemini_session) = Inr weather_results"
  by (simp add: execute_call_def toolMap_get_def weather_call_def time_call_def
      gemini_session_def get_weather_def weather_results_def)

lemma weather_results_encodable: "list_all (encodable example_stringify) weather_results"
  by (simp add: encodable_def weather_results_def example_stringify_def)

text \<open>
  C7. When \<open>step\<close> has yielded a request for the calls \<open>calls\<close> and is resumed with one result
  per call, and \<open>JSON.stringify\<close> encodes the value of every successful result, \<open>step\<close>
  returns the input history followed by, for each call in order, the assistant-tool-call
  entry of the call and then its tool-result entry: two entries per call, the prior entries
  unchanged and in place. The result entry holds the encoding of the value the tool
  returned, or, for a failed result, the encoding of the error object, whose error is the
  error of the result or the text \<open>Unknown execution error\<close>; failed results alone never
  abort the turn. The turn is aborted by an exception when \<open>JSON.stringify\<close> throws on the
  value of a successful result, so whenever \<open>step\<close> returns, it returns this history. The
  results \<open>executeTools\<close> returns are one per call.
\<close>

theorem step_round_trip:
  fixes s :: "('a, 'r) ChatSession" and stringify :: "'r \<Rightarrow> error + string option"
  assumes "step_begin parse fetch s w ms force = (w1, Inr (tool_request calls text fm))"
    and "length results = length calls"
  shows "(list_all (encodable stringify) results \<longrightarrow>
            step_resume stringify w1 calls text fm results
              = (w1\<lparr>emitted := emitted w1 @ [tool_finish results]\<rparr>,
                 Inr \<lparr>response_content = text,
                      response_messages
                        = ms @ concat (map2 (round_trip_entries stringify) calls results)\<rparr>))
    \<and> length (ms @ concat (map2 (round_trip_entries stringify) calls results))
        = length ms + 2 * length calls
    \<and> take (length ms) (ms @ concat (map2 (round_trip_entries stringify) calls results)) = ms
    \<and> (\<forall>call r v t. success r \<and> result_value r = Some v \<and> stringify v = Inr t \<longrightarrow>
          round_trip_entries stringify call r
            = [assistant_message_tool (call_id call) (call_name call) (arguments call),
               tool_message (call_id call) (call_name call) (EncodedResult t)])
    \<and> (\<forall>call r. \<not> success r \<longrightarrow>
          round_trip_entries stringify call r
            = [assistant_message_tool (call_id call) (call_name call) (arguments call),
               tool_message (call_id call) (call_name call)
                 (EncodedError (if js_truthy (result_error r) then result_error r
                                else JString ''Unknown execution error''))])
    \<and> ((\<forall>r\<in>set results. \<not> success r) \<longrightarrow> list_all (encodable stringify) results)
    \<and> (\<not> list_all (encodable stringify) results \<longrightarrow>
          (\<exists>e. snd (step_resume stringify w1 calls text fm results) = Inl e))
    \<and> (\<forall>rs. executeTools calls (tools s) = Inr rs \<longrightarrow> length rs = length calls)
    \<and> (\<forall>resp. snd (step_resume stringify w1 calls text fm results) = Inr resp \<longrightarrow>
          resp = \<lparr>response_content = text,
                  response_messages
                    = ms @ concat (map2 (round_trip_entries stringify) calls results)\<rparr>)"
proof -
  have fm: "fm = ms"
    using step_begin_tool_request [OF assms(1)] by simp
  have ok: "step_resume stringify w1 calls text fm results
      = (w1\<lparr>emitted := emitted w1 @ [tool_finish results]\<rparr>,
         Inr \<lparr>response_content = text,
              response_messages
                = ms @ concat (map2 (round_trip_entries stringify) calls results)\<rparr>)"
    if "list_all (encodable stringify) results"
    by (simp add: step_resume_def push_results_eq [OF assms(2) that] fm Let_def)
  have abort: "\<exists>e. snd (step_resume stringify w1 calls text fm results) = Inl e"
    if "\<not> list_all (encodable stringify) results"
    using push_results_abort [OF assms(2) that, of fm]
    by (auto simp: step_resume_def Let_def)
  have len: "length (ms @ concat (map2 (round_trip_entries stringify) calls results))
      = length ms + 2 * length calls"
    using length_round_trip [OF assms(2), of stringify] by simp
  have failed: "list_all (encodable stringify) results" if "\<forall>r\<in>set results. \<not> success r"
    using that by (rule failed_results_encodable)
  have returned: "resp = \<lparr>response_content = text,
        response_messages = ms @ concat (map2 (round_trip_entries stringify) calls results)\<rparr>"
    if "snd (step_resume stringify w1 calls text fm results) = Inr resp" for resp
  proof (cases "list_all (encodable stringify) results")
    case True
    from ok [OF True] that show ?thesis
      by simp
  next
    case False
    from abort [OF False] that show ?thesis
      by auto
  qed
  show ?thesis
    apply (intro conjI impI allI)
            apply (erule ok)
           apply (rule len)
          apply simp
         apply (simp add: round_trip_entries_def)
        apply (simp add: round_trip_entries_def)
       apply (erule failed)
      apply (erule abort)
     apply (erule executeTools_length)
    apply (erule returned)
    done
qed

theorem step_round_trip_witness:
  \<open>snd (step_begin (parseLine example_decode) tool_fetch gemini_session new_world
         [user_message ''hi''] False)
     = Inr (tool_request [weather_call, time_call] [] [user_message ''hi''])
   \<and> executeTools [weather_call, time_call] (tools gemini_session) = Inr weather_results
   \<and> length weather_results = length [weather_call, time_call]
   \<and> list_all (encodable example_stringify) weather_results
   \<and> snd (step_resume example_stringify
         (fst (step_begin (parseLine example_decode) tool_fetch gemini_session new_world
            [user_message ''hi''] False))
         [weather_call, time_call] [] [user_message ''hi''] weather_results)
     = Inr \<lparr>response_content = [],
            response_messages =
              [user_message ''hi'',
               assistant_message_tool (JString ''call_1'') (JString ''get_weather'')
                 ''[48.85,2.35]'',
               tool_message (JString ''call_1'') (JString ''get_weather'')
                 (EncodedResult (Some ''"sunny"'')),
               assistant_message_tool (JString ''call_2'') (JString ''get_time'') [],
               tool_message (JString ''call_2'') (JString ''get_time'')
                 (EncodedError (JString (''Tool '' @ [CHR 0x27] @ ''get_time'' @ [CHR 0x27]
                    @ '' not found.'')))]\<rparr>\<close>
proof -
  obtain ws requestBody
    where q: "request_body gemini_session [user_message ''hi''] = (ws, Inr requestBody)"
    using request_body_ok [OF gemini_profile_registered] by blast
  let ?w1 = "\<lparr>sent = [requestBody], emitted = ws @ [tool_start [weather_call, time_call]]\<rparr>"
  have b: "step_begin (parseLine example_decode) tool_fetch gemini_session new_world
         [user_message ''hi''] False
     = (?w1, Inr (tool_request [weather_call, time_call] [] [user_message ''hi'']))"
    by (simp add: step_begin_def stream_def q tool_fetch_def tool_chunks_events Let_def
        new_world_def)
  have l: "length weather_results = length [weather_call, time_call]"
    by (simp add: weather_results_def)
  have e: \<open>[user_message ''hi'']
        @ concat (map2 (round_trip_entries example_stringify) [weather_call, time_call]
            weather_results)
      = [user_message ''hi'',
         assistant_message_tool (JString ''call_1'') (JString ''get_weather'') ''[48.85,2.35]'',
         tool_message (JString ''call_1'') (JString ''get_weather'')
           (EncodedResult (Some ''"sunny"'')),
         assistant_message_tool (JString ''call_2'') (JString ''get_time'') [],
         tool_message (JString ''call_2'') (JString ''get_time'')
           (EncodedError (JString (''Tool '' @ [CHR 0x27] @ ''get_time'' @ [CHR 0x27]
              @ '' not found.'')))]\<close>
    by (simp add: round_trip_entries_def weather_call_def time_call_def weather_results_def
        example_stringify_def)
  note t = step_round_trip [OF b l, where stringify = example_stringify, THEN conjunct1,
      THEN mp, OF weather_results_encodable, unfolded e]
  show ?thesis
    unfolding b using l t weather_results_executed weather_results_encodable by simp
qed

section \<open>The iteration budget of run\<close>



lemma tools_forced_session: "tools (forced_session s) = tools s"
  by (simp add: forced_session_def)



































section \<open>Malformed lines\<close>

text \<open>
  C3, as amended. A line that starts with the data marker, whose payload is not the end
  sentinel and fails decoding, makes the v2.14.0 parser raise \<open>SSEError\<close>; the v2.11.0
  parser ignores the same line (it returns \<open>null\<close> and leaves its state alone). A line
  whose payload is the end sentinel, after trimming, is ignored by both variants, decodable
  or not.
\<close>

theorem parseLine_malformed:
  assumes "startsWith line ''data: ''"
  shows "(trim (drop 6 line) \<noteq> ''end'' \<and> decode (drop 6 line) = None \<longrightarrow>
            parseLine decode p line = Inl SSEError
          \<and> parseLine_v2_11 decode p line = Inr (p, None))
    \<and> (trim (drop 6 line) = ''end'' \<longrightarrow>
            parseLine decode p line = Inr (p, None)
          \<and> parseLine_v2_11 decode p line = Inr (p, None))"
  using assms by (simp add: parseLine_def parseLine_v2_11_def)

theorem parseLine_malformed_witness:
  "startsWith ''data: {bad'' ''data: '' \<and> trim (drop 6 ''data: {bad'') \<noteq> ''end''
   \<and> example_decode (drop 6 ''data: {bad'') = None
   \<and> parseLine example_decode new_SSEParser ''data: {bad'' = Inl SSEError
   \<and> parseLine_v2_11 example_decode new_SSEParser ''data: {bad'' = Inr (new_SSEParser, None)
   \<and> startsWith ''data: end'' ''data: '' \<and> trim (drop 6 ''data: end'') = ''end''
   \<and> parseLine example_decode new_SSEParser ''data: end'' = Inr (new_SSEParser, None)
   \<and> parseLine_v2_11 example_decode new_SSEParser ''data: end'' = Inr (new_SSEParser, None)"
proof -
  have a: "startsWith ''data: {bad'' ''data: ''"
    by (simp add: startsWith_def)
  have b: "trim (drop 6 ''data: {bad'') \<noteq> ''end''"
    by (simp add: trim_def isWhiteSpace_def)
  have c: "example_decode (drop 6 ''data: {bad'') = None"
    by (simp add: example_decode_def)
  have bc: "trim (drop 6 ''data: {bad'') \<noteq> ''end'' \<and> example_decode (drop 6 ''data: {bad'') = None"
    using b c by (rule conjI)
  note t = parseLine_malformed [OF a, where decode = example_decode and p = new_SSEParser,
      THEN conjunct1, THEN mp, OF bc]
  have d: "startsWith ''data: end'' ''data: ''"
    by (simp add: startsWith_def)
  have e: "trim (drop 6 ''data: end'') = ''end''"
    by (simp add: trim_def isWhiteSpace_def)
  note u = parseLine_malformed [OF d, where decode = example_decode and p = new_SSEParser,
      THEN conjunct2, THEN mp, OF e]
  show ?thesis
    by (intro conjI a b c t [THEN conjunct1] t [THEN conjunct2]
        d e u [THEN conjunct1] u [THEN conjunct2])
qed

text \<open>
  The claim as stated fails on the end sentinel: its payload \<open>end\<close> is not JSON, yet the
  line is ignored without an error, by the sentinel test that precedes decoding.
\<close>

theorem parseLine_end_sentinel_counterexample:
  "startsWith ''data: end'' ''data: '' \<and> example_decode (drop 6 ''data: end'') = None
   \<and> parseLine example_decode new_SSEParser ''data: end'' = Inr (new_SSEParser, None)"
  by (simp add: parseLine_def startsWith_def trim_def isWhiteSpace_def example_decode_def)

end
